theory Spec2Isabelle
  imports Complex_Main
begin

section \<open>JavaScript outcomes\<close>

text \<open>
  A JavaScript computation either returns a value or throws. A throw is the left
  summand, so that every \<^verbatim>\<open>try { ... } catch\<close> of the source is a
  function of the model.
\<close>

datatype js_error =
    JsonWebTokenError
  | NotBeforeError
  | TokenExpiredError
  | SyntaxError
  | TypeError
  | IllegalArguments
  | ConstraintError
  | DriverError

type_synonym 'a outcome = "js_error + 'a"

definition try_catch :: "'a outcome \<Rightarrow> (js_error \<Rightarrow> 'a outcome) \<Rightarrow> 'a outcome" where
  "try_catch body handler = (case body of Inl e \<Rightarrow> handler e | Inr v \<Rightarrow> Inr v)"

text \<open>
  A JSON value, as \<^verbatim>\<open>c.req.json()\<close> and \<^verbatim>\<open>JSON.parse\<close> return it. The
  finite numbers of JavaScript are among the reals. An object is the list of its
  members; where a key is repeated the last member counts. \<^verbatim>\<open>undefined\<close> is
  not a JSON value: a value that may be undefined is a \<open>jsval option\<close>.
\<close>

datatype jsval =
    JNull
  | JBool bool
  | JNum real
  | JStr string
  | JArr "jsval list"
  | JObj "(string \<times> jsval) list"

definition typeof :: "jsval \<Rightarrow> string" where
  "typeof v =
     (case v of
        JNull \<Rightarrow> ''object''
      | JBool b \<Rightarrow> ''boolean''
      | JNum n \<Rightarrow> ''number''
      | JStr s \<Rightarrow> ''string''
      | JArr xs \<Rightarrow> ''object''
      | JObj kvs \<Rightarrow> ''object'')"

text \<open>\<^verbatim>\<open>!s\<close> on a value that is a string or absent: it is absent or empty.\<close>

definition falsy :: "string option \<Rightarrow> bool" where
  "falsy v = (case v of None \<Rightarrow> True | Some s \<Rightarrow> s = [])"

text \<open>
  \<^verbatim>\<open>Boolean(v)\<close>, and \<^verbatim>\<open>!v\<close>, on a value that is any JSON value or
  undefined.
\<close>

definition Boolean :: "jsval option \<Rightarrow> bool" where
  "Boolean v =
     (case v of
        None \<Rightarrow> False
      | Some JNull \<Rightarrow> False
      | Some (JBool b) \<Rightarrow> b
      | Some (JNum x) \<Rightarrow> x \<noteq> 0
      | Some (JStr s) \<Rightarrow> s \<noteq> []
      | Some (JArr xs) \<Rightarrow> True
      | Some (JObj kvs) \<Rightarrow> True)"

definition falsy_value :: "jsval option \<Rightarrow> bool" where
  "falsy_value v = (\<not> Boolean v)"

text \<open>
  \<^verbatim>\<open>const { a, b } = body\<close> throws a \<^verbatim>\<open>TypeError\<close> when the body is
  \<^verbatim>\<open>null\<close>. Of any other value it reads the properties: a member of an object,
  and \<^verbatim>\<open>undefined\<close> where there is none. The names the handlers read
  (\<^verbatim>\<open>email\<close>, \<^verbatim>\<open>password\<close>, \<^verbatim>\<open>name\<close>, \<^verbatim>\<open>title\<close>,
  \<^verbatim>\<open>description\<close>, \<^verbatim>\<open>completed\<close>) are properties of no string, number,
  boolean or array.
\<close>

definition destructure :: "jsval \<Rightarrow> jsval outcome" where
  "destructure body = (case body of JNull \<Rightarrow> Inl TypeError | _ \<Rightarrow> Inr body)"

definition property :: "jsval \<Rightarrow> string \<Rightarrow> jsval option" where
  "property v name = (case v of JObj kvs \<Rightarrow> map_of (rev kvs) name | _ \<Rightarrow> None)"

text \<open>
  \<^verbatim>\<open>v.includes(s)\<close> for a string \<open>s\<close>: on a string, whether \<open>s\<close> occurs in
  it; on an array, whether \<open>s\<close> is one of its elements; a number, a boolean or an
  object has no function \<^verbatim>\<open>includes\<close>, and the call throws.
\<close>

fun includes_string :: "string \<Rightarrow> string \<Rightarrow> bool" where
  "includes_string [] s = (s = [])"
| "includes_string (x # xs) s = (take (length s) (x # xs) = s \<or> includes_string xs s)"

definition call_includes :: "jsval \<Rightarrow> string \<Rightarrow> bool outcome" where
  "call_includes v s =
     (case v of
        JStr t \<Rightarrow> Inr (includes_string t s)
      | JArr xs \<Rightarrow> Inr (JStr s \<in> set xs)
      | _ \<Rightarrow> Inl TypeError)"

definition digit_char :: "nat \<Rightarrow> char" where
  "digit_char d = ''0123456789abcdef'' ! d"

section \<open>lib/auth.ts\<close>

text \<open>
  \<^verbatim>\<open>interface TokenPayload { userId; email; type }\<close>, with the registered
  claims that \<^verbatim>\<open>jsonwebtoken\<close> writes or reads: \<^verbatim>\<open>iat\<close>, and
  \<^verbatim>\<open>nbf\<close> and \<^verbatim>\<open>exp\<close> as the JSON values the token carries, if any.
\<close>

record TokenPayload =
  tp_userId :: string
  tp_email :: string
  tp_type :: string
  tp_iat :: int
  tp_nbf :: "jsval option"
  tp_exp :: "jsval option"

text \<open>
  What the program imports or is given by its platform, and does not define. These are
  parameters of the model:
  \<^item> of \<^verbatim>\<open>jsonwebtoken\<close>, how a token string decodes, whether its signature
    checks under a secret, and how a payload is signed;
  \<^item> of \<^verbatim>\<open>bcryptjs\<close>, the two password operations on strings (the salt is an
    input of the hash);
  \<^item> of the JavaScript engine, \<^verbatim>\<open>JSON.stringify\<close>, \<^verbatim>\<open>JSON.parse\<close>, and
    \<^verbatim>\<open>v < n\<close> where \<open>v\<close> is a string, an array or an object, which the engine
    first converts to a number;
  \<^item> of the D1 database, what binding a number, a boolean, an array or an object as a
    query parameter does: it throws, or the value counts as a text, or as
    \<^verbatim>\<open>NULL\<close>, in comparisons with a text column and when stored in one.
\<close>

record packages =
  jwt_decode :: "string \<Rightarrow> TokenPayload option"
  jwt_signature_ok :: "string \<Rightarrow> string \<Rightarrow> bool"
  jwt_sign :: "TokenPayload \<Rightarrow> string \<Rightarrow> string"
  bcrypt_hash :: "string \<Rightarrow> string \<Rightarrow> string"
  bcrypt_compare :: "string \<Rightarrow> string \<Rightarrow> bool"
  JSON_stringify :: "jsval \<Rightarrow> string"
  JSON_parse :: "string \<Rightarrow> jsval outcome"
  converted_less :: "jsval \<Rightarrow> real \<Rightarrow> bool"
  d1_bind :: "jsval \<Rightarrow> string option outcome"

text \<open>
  The checks of \<^verbatim>\<open>jwt.verify\<close> on the registered claims: a claim that is present
  must be a number; \<^verbatim>\<open>nbf\<close> must not be later than the clock, and
  \<^verbatim>\<open>exp\<close> must be later than the clock, in seconds.
\<close>

definition numeric_date :: "jsval option \<Rightarrow> bool" where
  "numeric_date v = (case v of None \<Rightarrow> True | Some (JNum x) \<Rightarrow> True | Some _ \<Rightarrow> False)"

definition not_before :: "TokenPayload \<Rightarrow> int \<Rightarrow> bool" where
  "not_before payload clockTimestamp =
     (case tp_nbf payload of Some (JNum nbf) \<Rightarrow> nbf > real_of_int clockTimestamp | _ \<Rightarrow> False)"

definition expired :: "TokenPayload \<Rightarrow> int \<Rightarrow> bool" where
  "expired payload clockTimestamp =
     (case tp_exp payload of Some (JNum e) \<Rightarrow> real_of_int clockTimestamp \<ge> e | _ \<Rightarrow> False)"

text \<open>
  \<^verbatim>\<open>jwt.verify(token, secret)\<close> with no options: decode, check the signature,
  check \<^verbatim>\<open>nbf\<close>, check \<^verbatim>\<open>exp\<close>; each failure is thrown.
\<close>

definition jwt_verify :: "packages \<Rightarrow> string \<Rightarrow> string \<Rightarrow> int \<Rightarrow> TokenPayload outcome" where
  "jwt_verify P token secret now_ms =
     (case jwt_decode P token of
        None \<Rightarrow> Inl JsonWebTokenError
      | Some payload \<Rightarrow>
          if \<not> jwt_signature_ok P token secret then Inl JsonWebTokenError
          else if \<not> numeric_date (tp_nbf payload) then Inl JsonWebTokenError
          else if not_before payload (now_ms div 1000) then Inl NotBeforeError
          else if \<not> numeric_date (tp_exp payload) then Inl JsonWebTokenError
          else if expired payload (now_ms div 1000) then Inl TokenExpiredError
          else Inr payload)"

text \<open>
  \<^verbatim>\<open>bcrypt.hash\<close> and \<^verbatim>\<open>bcrypt.compare\<close> reject an argument that is not a
  string.
\<close>

definition hashPassword :: "packages \<Rightarrow> jsval \<Rightarrow> string \<Rightarrow> string outcome" where
  "hashPassword P password salt =
     (case password of JStr s \<Rightarrow> Inr (bcrypt_hash P s salt) | _ \<Rightarrow> Inl IllegalArguments)"

definition verifyPassword :: "packages \<Rightarrow> jsval \<Rightarrow> string \<Rightarrow> bool outcome" where
  "verifyPassword P password hash =
     (case password of JStr s \<Rightarrow> Inr (bcrypt_compare P s hash) | _ \<Rightarrow> Inl IllegalArguments)"

definition generateAccessToken ::
  "packages \<Rightarrow> string \<Rightarrow> string \<Rightarrow> string \<Rightarrow> int \<Rightarrow> int \<Rightarrow> string" where
  "generateAccessToken P userId email secret expirySeconds now_ms =
     jwt_sign P
       \<lparr>tp_userId = userId, tp_email = email, tp_type = ''access'',
        tp_iat = now_ms div 1000, tp_nbf = None,
        tp_exp = Some (JNum (real_of_int (now_ms div 1000 + expirySeconds)))\<rparr>
       secret"

definition hex_digit :: "char \<Rightarrow> bool" where
  "hex_digit c = (c \<in> set ''0123456789abcdefABCDEF'')"

text \<open>
  \<^verbatim>\<open>/^[0-9a-f]{8}-[0-9a-f]{4}-4[0-9a-f]{3}-[89ab][0-9a-f]{3}-[0-9a-f]{12}$/i\<close>
\<close>

definition isValidUUID :: "string \<Rightarrow> bool" where
  "isValidUUID uuid =
     (length uuid = 36 \<and>
      list_all hex_digit (take 8 uuid) \<and> uuid ! 8 = CHR ''-'' \<and>
      list_all hex_digit (take 4 (drop 9 uuid)) \<and> uuid ! 13 = CHR ''-'' \<and>
      uuid ! 14 = CHR ''4'' \<and>
      list_all hex_digit (take 3 (drop 15 uuid)) \<and> uuid ! 18 = CHR ''-'' \<and>
      uuid ! 19 \<in> set ''89abAB'' \<and>
      list_all hex_digit (take 3 (drop 20 uuid)) \<and> uuid ! 23 = CHR ''-'' \<and>
      list_all hex_digit (drop 24 uuid))"

definition verifyAccessToken ::
  "packages \<Rightarrow> string \<Rightarrow> string \<Rightarrow> int \<Rightarrow> TokenPayload option outcome" where
  "verifyAccessToken P token secret now_ms =
     try_catch
       (case jwt_verify P token secret now_ms of
          Inl e \<Rightarrow> Inl e
        | Inr payload \<Rightarrow>
            if tp_type payload \<noteq> ''access'' then Inr None else Inr (Some payload))
       (\<lambda>error. Inr None)"

text \<open>\<^verbatim>\<open>s.split(c)\<close> of JavaScript: never empty, \<^verbatim>\<open>''.split(' ')\<close> is \<^verbatim>\<open>['']\<close>.\<close>

fun split :: "char \<Rightarrow> string \<Rightarrow> string list" where
  "split c [] = [[]]"
| "split c (x # xs) =
     (if x = c then [] # split c xs
      else (case split c xs of [] \<Rightarrow> [[x]] | w # ws \<Rightarrow> (x # w) # ws))"

definition extractBearerToken :: "string option \<Rightarrow> string option" where
  "extractBearerToken authHeader =
     (if falsy authHeader then None
      else
        let parts = split CHR '' '' (the authHeader) in
        if length parts \<noteq> 2 \<or> parts ! 0 \<noteq> ''Bearer'' then None
        else Some (parts ! 1))"


section \<open>Lengths and comparisons\<close>

text \<open>
  \<^verbatim>\<open>v.length\<close>: the length of a string or an array, the member of that name of
  an object, undefined on a number or a boolean, a \<^verbatim>\<open>TypeError\<close> on
  \<^verbatim>\<open>null\<close>. \<^verbatim>\<open>l < n\<close> for a number \<open>n\<close>: \<^verbatim>\<open>undefined\<close> converts to
  \<^verbatim>\<open>NaN\<close>, which is below nothing, \<^verbatim>\<open>null\<close> to 0, a boolean to 0 or 1.
\<close>

definition length_of :: "jsval \<Rightarrow> jsval option outcome" where
  "length_of v =
     (case v of
        JNull \<Rightarrow> Inl TypeError
      | JStr s \<Rightarrow> Inr (Some (JNum (real (length s))))
      | JArr xs \<Rightarrow> Inr (Some (JNum (real (length xs))))
      | JObj kvs \<Rightarrow> Inr (map_of (rev kvs) ''length'')
      | _ \<Rightarrow> Inr None)"

definition less_than :: "packages \<Rightarrow> jsval option \<Rightarrow> real \<Rightarrow> bool" where
  "less_than P l n =
     (case l of
        None \<Rightarrow> False
      | Some JNull \<Rightarrow> 0 < n
      | Some (JBool b) \<Rightarrow> (if b then 1 else 0) < n
      | Some (JNum x) \<Rightarrow> x < n
      | Some v \<Rightarrow> converted_less P v n)"

section \<open>db/schema.ts\<close>

text \<open>
  The three tables, a row a record, a table the list of its rows in insertion order.
  Columns in \<^verbatim>\<open>timestamp\<close> mode hold whole seconds. The constraints of the
  schema (primary keys, \<^verbatim>\<open>unique()\<close>, \<^verbatim>\<open>references\<close>,
  \<^verbatim>\<open>notNull()\<close>) are checked by the insert and update functions below, which
  throw as the database does. The description of a todo can be \<^verbatim>\<open>NULL\<close>.
\<close>

record user =
  user_id :: string
  user_email :: string
  user_password :: string
  user_name :: string
  user_bio :: string
  user_preferences :: string
  user_createdAt :: int
  user_updatedAt :: int

record refreshToken =
  rt_id :: nat
  rt_token :: string
  rt_userId :: string
  rt_expiresAt :: int
  rt_createdAt :: int

record todo =
  todo_id :: string
  todo_userId :: string
  todo_title :: string
  todo_description :: "string option"
  todo_completed :: bool
  todo_createdAt :: int
  todo_updatedAt :: int

record db =
  users :: "user list"
  refreshTokens :: "refreshToken list"
  todos :: "todo list"
  refreshTokens_seq :: nat

text \<open>
  What a request reads from outside the program: the worker's clock in milliseconds
  (\<^verbatim>\<open>Date.now()\<close>, \<^verbatim>\<open>new Date()\<close>), the database's clock in seconds
  (\<^verbatim>\<open>unixepoch()\<close>, the default of the \<^verbatim>\<open>created_at\<close> columns), and the
  random values.
\<close>

record sys =
  Date_now :: int
  unixepoch :: int
  randomUUID :: string
  randomValues :: "nat list"
  salt :: string

section \<open>Responses\<close>

text \<open>
  \<^verbatim>\<open>formatResponse(c, data, status)\<close> renders \<^verbatim>\<open>data\<close> as text, HTML or
  JSON by client type; the model keeps the data and the status. Each constructor is one
  shape of object the handlers pass; \<^verbatim>\<open>InternalServerError e\<close> is the body of
  the \<^verbatim>\<open>catch\<close> blocks, whose message is that of the error caught.
\<close>

datatype body =
    ErrorBody string string
  | InternalServerError js_error
  | Success string
  | Registered string string string
  | Tokens string string int
  | Refreshed string int
  | Profile string string string string jsval int int
  | ProfileUpdated string string string string jsval
  | TodoList "todo list"
  | TodoBody todo
  | TodoSuccess string todo
  | Docs
  | PlainText string


record response =
  data :: body
  status :: nat

definition formatResponse :: "body \<Rightarrow> nat \<Rightarrow> response" where
  "formatResponse d s = \<lparr>data = d, status = s\<rparr>"

section \<open>Configuration\<close>

text \<open>
  \<^verbatim>\<open>c.env\<close>; the two lifetimes are held as the integers that
  \<^verbatim>\<open>parseInt\<close> reads from them.
\<close>

record Env =
  JWT_SECRET :: string
  JWT_ACCESS_EXPIRY :: int
  JWT_REFRESH_EXPIRY :: int

section \<open>middleware/auth.ts\<close>

text \<open>
  The guard either answers itself, or stores \<^verbatim>\<open>userId\<close> and
  \<^verbatim>\<open>userEmail\<close> in the context and calls \<^verbatim>\<open>next()\<close>. It has no
  \<^verbatim>\<open>try\<close> of its own, so a throw of \<^verbatim>\<open>verifyAccessToken\<close> would leave it.
\<close>

datatype guard = Responded response | Next string string | Uncaught js_error

definition requireAuth :: "packages \<Rightarrow> Env \<Rightarrow> int \<Rightarrow> string option \<Rightarrow> guard" where
  "requireAuth P env now_ms authHeader =
     (let token = extractBearerToken authHeader in
      if falsy token then
        Responded (formatResponse
          (ErrorBody ''Unauthorized''
             ''Missing or invalid Authorization header. Expected: Authorization: Bearer <token>'')
          401)
      else
        (case verifyAccessToken P (the token) (JWT_SECRET env) now_ms of
           Inl e \<Rightarrow> Uncaught e
         | Inr None \<Rightarrow>
             Responded (formatResponse
               (ErrorBody ''Unauthorized'' ''Invalid or expired access token'') 401)
         | Inr (Some payload) \<Rightarrow> Next (tp_userId payload) (tp_email payload)))"

text \<open>The two answers of the guard.\<close>

definition header_401 :: response where
  "header_401 = formatResponse
     (ErrorBody ''Unauthorized''
        ''Missing or invalid Authorization header. Expected: Authorization: Bearer <token>'')
     401"

definition token_401 :: response where
  "token_401 = formatResponse (ErrorBody ''Unauthorized'' ''Invalid or expired access token'') 401"

section \<open>Queries\<close>

text \<open>
  The drizzle queries of the handlers. \<^verbatim>\<open>.get()\<close> is the first row of the
  result, \<^verbatim>\<open>.returning()\<close> the rows written or deleted.
\<close>

definition hex2 :: "nat \<Rightarrow> string" where
  "hex2 byte = [digit_char (byte div 16 mod 16), digit_char (byte mod 16)]"

definition generateRefreshToken :: "sys \<Rightarrow> string" where
  "generateRefreshToken S = concat (map hex2 (take 32 (randomValues S)))"

text \<open>
  A JSON value bound as a query parameter: a string is a text, \<^verbatim>\<open>null\<close> is
  \<^verbatim>\<open>NULL\<close>, and the rest is D1's to decide.
\<close>

definition bind_value :: "packages \<Rightarrow> jsval \<Rightarrow> string option outcome" where
  "bind_value P v = (case v of JStr s \<Rightarrow> Inr (Some s) | JNull \<Rightarrow> Inr None | _ \<Rightarrow> d1_bind P v)"

text \<open>A column declared \<^verbatim>\<open>notNull()\<close> refuses \<^verbatim>\<open>NULL\<close>.\<close>

definition not_null :: "string option \<Rightarrow> string outcome" where
  "not_null v = (case v of None \<Rightarrow> Inl ConstraintError | Some s \<Rightarrow> Inr s)"

text \<open>
  A value set by an update: \<^verbatim>\<open>undefined\<close> leaves the column out of the
  statement, anything else is bound.
\<close>

definition set_value :: "packages \<Rightarrow> jsval option \<Rightarrow> string option option outcome" where
  "set_value P v =
     (case v of
        None \<Rightarrow> Inr None
      | Some x \<Rightarrow> (case bind_value P x of Inl error \<Rightarrow> Inl error | Inr t \<Rightarrow> Inr (Some t)))"

definition select_user_by_email :: "db \<Rightarrow> string \<Rightarrow> user option" where
  "select_user_by_email d email = List.find (\<lambda>u. user_email u = email) (users d)"

definition select_user_by_id :: "db \<Rightarrow> string \<Rightarrow> user option" where
  "select_user_by_id d userId = List.find (\<lambda>u. user_id u = userId) (users d)"

definition insert_user :: "db \<Rightarrow> user \<Rightarrow> db outcome" where
  "insert_user d u =
     (if list_ex (\<lambda>v. user_id v = user_id u \<or> user_email v = user_email u) (users d)
      then Inl ConstraintError
      else Inr (d\<lparr>users := users d @ [u]\<rparr>))"

text \<open>
  \<^verbatim>\<open>new Date(ms)\<close> holds a time only within 8.64e15 milliseconds of the epoch;
  outside that range it is an Invalid Date, whose time value is \<^verbatim>\<open>NaN\<close>, and
  the insert of a row with such an \<^verbatim>\<open>expiresAt\<close> throws.
\<close>

definition valid_time :: "int \<Rightarrow> bool" where
  "valid_time ms = (- 8640000000000000 \<le> ms \<and> ms \<le> 8640000000000000)"

definition insert_refreshToken :: "db \<Rightarrow> sys \<Rightarrow> string \<Rightarrow> string \<Rightarrow> int \<Rightarrow> db outcome" where
  "insert_refreshToken d S token userId expiresAt_ms =
     (if \<not> valid_time expiresAt_ms then Inl DriverError
      else if list_ex (\<lambda>r. rt_token r = token) (refreshTokens d)
         \<or> \<not> list_ex (\<lambda>u. user_id u = userId) (users d)
      then Inl ConstraintError
      else Inr (d\<lparr>refreshTokens := refreshTokens d @
                   [\<lparr>rt_id = Suc (refreshTokens_seq d), rt_token = token, rt_userId = userId,
                     rt_expiresAt = expiresAt_ms div 1000, rt_createdAt = unixepoch S\<rparr>],
                 refreshTokens_seq := Suc (refreshTokens_seq d)\<rparr>))"

text \<open>
  \<^verbatim>\<open>select({token, user}).from(refreshTokens).innerJoin(users, ...).where(...).get()\<close>
\<close>

definition select_token_with_user :: "db \<Rightarrow> string \<Rightarrow> (refreshToken \<times> user) option" where
  "select_token_with_user d refresh_token =
     (case [(r, u). r \<leftarrow> refreshTokens d, u \<leftarrow> users d,
                    rt_userId r = user_id u, rt_token r = refresh_token] of
        [] \<Rightarrow> None
      | row # rest \<Rightarrow> Some row)"

definition delete_refreshToken :: "db \<Rightarrow> string \<Rightarrow> refreshToken list \<times> db" where
  "delete_refreshToken d refresh_token =
     (filter (\<lambda>r. rt_token r = refresh_token) (refreshTokens d),
      d\<lparr>refreshTokens := filter (\<lambda>r. rt_token r \<noteq> refresh_token) (refreshTokens d)\<rparr>)"

definition select_todo :: "db \<Rightarrow> string \<Rightarrow> string \<Rightarrow> todo option" where
  "select_todo d todoId userId =
     List.find (\<lambda>t. todo_id t = todoId \<and> todo_userId t = userId) (todos d)"

definition insert_todo :: "db \<Rightarrow> todo \<Rightarrow> db outcome" where
  "insert_todo d t =
     (if list_ex (\<lambda>x. todo_id x = todo_id t) (todos d)
         \<or> \<not> list_ex (\<lambda>u. user_id u = todo_userId t) (users d)
      then Inl ConstraintError
      else Inr (d\<lparr>todos := todos d @ [t]\<rparr>))"

definition update_user ::
  "db \<Rightarrow> string \<Rightarrow> int \<Rightarrow> string option \<Rightarrow> string option \<Rightarrow> string option
     \<Rightarrow> user list \<times> db" where
  "update_user d userId updatedAt name bio preferences =
     (let set_row = (\<lambda>u. u\<lparr>user_updatedAt := updatedAt,
                            user_name := (case name of None \<Rightarrow> user_name u | Some n \<Rightarrow> n),
                            user_bio := (case bio of None \<Rightarrow> user_bio u | Some b \<Rightarrow> b),
                            user_preferences :=
                              (case preferences of None \<Rightarrow> user_preferences u | Some p \<Rightarrow> p)\<rparr>)
      in (map set_row (filter (\<lambda>u. user_id u = userId) (users d)),
          d\<lparr>users := map (\<lambda>u. if user_id u = userId then set_row u else u) (users d)\<rparr>))"

definition update_todo ::
  "db \<Rightarrow> string \<Rightarrow> int \<Rightarrow> string option \<Rightarrow> string option option \<Rightarrow> bool option
     \<Rightarrow> todo list \<times> db" where
  "update_todo d todoId updatedAt title description completed =
     (let set_row = (\<lambda>t. t\<lparr>todo_updatedAt := updatedAt,
                            todo_title := (case title of None \<Rightarrow> todo_title t | Some x \<Rightarrow> x),
                            todo_description :=
                              (case description of None \<Rightarrow> todo_description t | Some x \<Rightarrow> x),
                            todo_completed :=
                              (case completed of None \<Rightarrow> todo_completed t | Some b \<Rightarrow> b)\<rparr>)
      in (map set_row (filter (\<lambda>t. todo_id t = todoId) (todos d)),
          d\<lparr>todos := map (\<lambda>t. if todo_id t = todoId then set_row t else t) (todos d)\<rparr>))"

definition delete_todo_by_id :: "db \<Rightarrow> string \<Rightarrow> db" where
  "delete_todo_by_id d todoId = d\<lparr>todos := filter (\<lambda>t. todo_id t \<noteq> todoId) (todos d)\<rparr>"

section \<open>index.ts: the handlers\<close>

text \<open>
  A handler takes the database and returns the response and the database it leaves.
  The body of each \<^verbatim>\<open>try\<close> is a computation that may throw; the
  \<^verbatim>\<open>catch\<close> answers 500 with the message of the error, and keeps what was
  written before the throw.
\<close>

definition catch_500 :: "response outcome \<times> db \<Rightarrow> response \<times> db" where
  "catch_500 r =
     (case r of
        (Inl error, d) \<Rightarrow> (formatResponse (InternalServerError error) 500, d)
      | (Inr resp, d) \<Rightarrow> (resp, d))"

text \<open>
  A step that may throw while the database is still \<open>d\<close>: a throw ends the
  \<^verbatim>\<open>try\<close> there, a value goes on to the rest of the handler.
\<close>

definition await ::
  "db \<Rightarrow> 'a outcome \<Rightarrow> ('a \<Rightarrow> response outcome \<times> db) \<Rightarrow> response outcome \<times> db" where
  "await d step rest = (case step of Inl error \<Rightarrow> (Inl error, d) | Inr v \<Rightarrow> rest v)"

text \<open>
  \<^verbatim>\<open>POST /register\<close>, \<^verbatim>\<open>POST /token\<close> and \<^verbatim>\<open>PUT /todos/:id\<close> are
  taken from the request body as it arrives: \<open>json\<close> is what
  \<^verbatim>\<open>await c.req.json()\<close> gives, a throw when the body is not JSON text and any
  JSON value otherwise, and the fields are whatever JSON values the body holds.
\<close>

definition post_register :: "packages \<Rightarrow> sys \<Rightarrow> db \<Rightarrow> jsval outcome \<Rightarrow> response \<times> db" where
  "post_register P S d json = catch_500
     (await d json (\<lambda>body.
      await d (destructure body) (\<lambda>fields.
        let email = property fields ''email'';
            password = property fields ''password'';
            name = property fields ''name''
        in
        if falsy_value email \<or> falsy_value password \<or> falsy_value name then
          (Inr (formatResponse
             (ErrorBody ''Bad Request'' ''Missing required fields: email, password, name'') 400), d)
        else
          await d (call_includes (the email) ''@'') (\<lambda>has_at.
            if \<not> has_at then
              (Inr (formatResponse (ErrorBody ''Bad Request'' ''Invalid email format'') 400), d)
            else
              await d (length_of (the password)) (\<lambda>password_length.
                if less_than P password_length 8 then
                  (Inr (formatResponse
                     (ErrorBody ''Bad Request'' ''Password must be at least 8 characters long'')
                     400), d)
                else
                  await d (bind_value P (the email)) (\<lambda>email_text.
                    case Option.bind email_text (select_user_by_email d) of
                      Some existingUser \<Rightarrow>
                        (Inr (formatResponse
                           (ErrorBody ''Conflict'' ''User with this email already exists'') 409), d)
                    | None \<Rightarrow>
                        await d (hashPassword P (the password) (salt S)) (\<lambda>hashedPassword.
                        await d (bind_value P (the name)) (\<lambda>name_text.
                        await d (not_null email_text) (\<lambda>stored_email.
                        await d (not_null name_text) (\<lambda>stored_name.
                          let userId = randomUUID S;
                              u = \<lparr>user_id = userId, user_email = stored_email,
                                   user_password = hashedPassword, user_name = stored_name,
                                   user_bio = [], user_preferences = ''{}'',
                                   user_createdAt = unixepoch S, user_updatedAt = unixepoch S\<rparr>
                          in await d (insert_user d u) (\<lambda>d'.
                               (Inr (formatResponse
                                  (Registered (user_id u) (user_email u) (user_name u)) 201),
                                d'))))))))))))"

definition post_token :: "packages \<Rightarrow> Env \<Rightarrow> sys \<Rightarrow> db \<Rightarrow> jsval outcome \<Rightarrow> response \<times> db" where
  "post_token P env S d json = catch_500
     (await d json (\<lambda>body.
      await d (destructure body) (\<lambda>fields.
        let email = property fields ''email'';
            password = property fields ''password''
        in
        if falsy_value email \<or> falsy_value password then
          (Inr (formatResponse
             (ErrorBody ''Bad Request'' ''Missing required fields: email, password'') 400), d)
        else
          await d (bind_value P (the email)) (\<lambda>email_text.
            case Option.bind email_text (select_user_by_email d) of
              None \<Rightarrow>
                (Inr (formatResponse
                   (ErrorBody ''Unauthorized'' ''Invalid email or password'') 401), d)
            | Some u \<Rightarrow>
                await d (verifyPassword P (the password) (user_password u)) (\<lambda>isValid.
                  if \<not> isValid then
                    (Inr (formatResponse
                       (ErrorBody ''Unauthorized'' ''Invalid email or password'') 401), d)
                  else
                    let accessToken = generateAccessToken P (user_id u) (user_email u)
                          (JWT_SECRET env) (JWT_ACCESS_EXPIRY env) (Date_now S);
                        refreshToken = generateRefreshToken S;
                        refreshExpirySeconds = JWT_REFRESH_EXPIRY env;
                        expiresAt = Date_now S + refreshExpirySeconds * 1000
                    in await d (insert_refreshToken d S refreshToken (user_id u) expiresAt) (\<lambda>d'.
                         (Inr (formatResponse
                            (Tokens accessToken refreshToken (JWT_ACCESS_EXPIRY env)) 200),
                          d')))))))"

text \<open>
  The other handlers are taken from the point where the body has been read: a field is
  \<^verbatim>\<open>None\<close> when the body has no such key, and the text fields are strings.
\<close>

definition post_refresh ::
  "packages \<Rightarrow> Env \<Rightarrow> sys \<Rightarrow> db \<Rightarrow> string option \<Rightarrow> response \<times> db" where
  "post_refresh P env S d refresh_token = catch_500
     (if falsy refresh_token then
        (Inr (formatResponse
           (ErrorBody ''Bad Request'' ''Missing required field: refresh_token'') 400), d)
      else
        (case select_token_with_user d (the refresh_token) of
           None \<Rightarrow>
             (Inr (formatResponse (ErrorBody ''Unauthorized'' ''Invalid refresh token'') 401), d)
         | Some (token, u) \<Rightarrow>
             if rt_expiresAt token * 1000 < Date_now S then
               (Inr (formatResponse
                  (ErrorBody ''Unauthorized'' ''Refresh token has expired'') 401),
                snd (delete_refreshToken d (the refresh_token)))
             else
               (let accessToken = generateAccessToken P (user_id u) (user_email u)
                      (JWT_SECRET env) (JWT_ACCESS_EXPIRY env) (Date_now S)
                in (Inr (formatResponse
                      (Refreshed accessToken (JWT_ACCESS_EXPIRY env)) 200), d))))"

definition post_revoke :: "db \<Rightarrow> string option \<Rightarrow> response \<times> db" where
  "post_revoke d refresh_token = catch_500
     (if falsy refresh_token then
        (Inr (formatResponse
           (ErrorBody ''Bad Request'' ''Missing required field: refresh_token'') 400), d)
      else
        (let (result, d') = delete_refreshToken d (the refresh_token) in
         if length result = 0 then
           (Inr (formatResponse (ErrorBody ''Not Found'' ''Refresh token not found'') 404), d')
         else
           (Inr (formatResponse (Success ''Token revoked successfully'') 200), d')))"

definition get_profile :: "packages \<Rightarrow> db \<Rightarrow> string \<Rightarrow> response \<times> db" where
  "get_profile P d userId = catch_500
     (case select_user_by_id d userId of
        None \<Rightarrow> (Inr (formatResponse (ErrorBody ''Not Found'' ''User not found'') 404), d)
      | Some u \<Rightarrow>
          (case JSON_parse P (user_preferences u) of
             Inl error \<Rightarrow> (Inl error, d)
           | Inr preferences \<Rightarrow>
               (Inr (formatResponse
                  (Profile (user_id u) (user_email u) (user_name u) (user_bio u) preferences
                     (user_createdAt u) (user_updatedAt u)) 200), d)))"

definition put_profile ::
  "packages \<Rightarrow> sys \<Rightarrow> db \<Rightarrow> string \<Rightarrow> string option \<Rightarrow> string option \<Rightarrow> jsval option
     \<Rightarrow> response \<times> db" where
  "put_profile P S d userId name bio preferences = catch_500
     (if preferences \<noteq> None \<and> typeof (the preferences) \<noteq> ''object'' then
        (Inr (formatResponse
           (ErrorBody ''Bad Request'' ''preferences must be an object'') 400), d)
      else
        (let (result, d') = update_user d userId (Date_now S div 1000) name bio
               (map_option (JSON_stringify P) preferences)
         in case result of
              [] \<Rightarrow> (Inl TypeError, d')
            | u # rest \<Rightarrow>
                (case JSON_parse P (user_preferences u) of
                   Inl error \<Rightarrow> (Inl error, d')
                 | Inr parsed \<Rightarrow>
                     (Inr (formatResponse
                        (ProfileUpdated (user_id u) (user_email u) (user_name u) (user_bio u)
                           parsed) 200), d'))))"

definition get_todos :: "db \<Rightarrow> string \<Rightarrow> response \<times> db" where
  "get_todos d userId = catch_500
     (Inr (formatResponse (TodoList (filter (\<lambda>t. todo_userId t = userId) (todos d))) 200), d)"

definition post_todos ::
  "sys \<Rightarrow> db \<Rightarrow> string \<Rightarrow> string option \<Rightarrow> string option \<Rightarrow> response \<times> db" where
  "post_todos S d userId title description = catch_500
     (if falsy title then
        (Inr (formatResponse (ErrorBody ''Bad Request'' ''Missing required field: title'') 400), d)
      else
        (let todoId = randomUUID S;
             t = \<lparr>todo_id = todoId, todo_userId = userId, todo_title = the title,
                  todo_description = Some (if falsy description then [] else the description),
                  todo_completed = False,
                  todo_createdAt = unixepoch S, todo_updatedAt = unixepoch S\<rparr>
         in case insert_todo d t of
              Inl error \<Rightarrow> (Inl error, d)
            | Inr d' \<Rightarrow>
                (Inr (formatResponse (TodoSuccess ''Todo created successfully'' t) 201), d')))"

definition get_todo :: "db \<Rightarrow> string \<Rightarrow> string \<Rightarrow> response \<times> db" where
  "get_todo d userId todoId = catch_500
     (if \<not> isValidUUID todoId then
        (Inr (formatResponse (ErrorBody ''Bad Request'' ''Invalid todo ID format'') 400), d)
      else
        (case select_todo d todoId userId of
           None \<Rightarrow> (Inr (formatResponse (ErrorBody ''Not Found'' ''Todo not found'') 404), d)
         | Some t \<Rightarrow> (Inr (formatResponse (TodoBody t) 200), d)))"

text \<open>
  \<^verbatim>\<open>PUT /todos/:id\<close> reads and destructures the body after the check of the id
  and before it looks the todo up. The update binds the title and the description it
  sets; the title column is \<^verbatim>\<open>notNull()\<close>.
\<close>

definition put_todo ::
  "packages \<Rightarrow> sys \<Rightarrow> db \<Rightarrow> string \<Rightarrow> string \<Rightarrow> jsval outcome \<Rightarrow> response \<times> db" where
  "put_todo P S d userId todoId json = catch_500
     (if \<not> isValidUUID todoId then
        (Inr (formatResponse (ErrorBody ''Bad Request'' ''Invalid todo ID format'') 400), d)
      else
        await d json (\<lambda>body.
        await d (destructure body) (\<lambda>fields.
          let title = property fields ''title'';
              description = property fields ''description'';
              completed = property fields ''completed''
          in
          case select_todo d todoId userId of
            None \<Rightarrow> (Inr (formatResponse (ErrorBody ''Not Found'' ''Todo not found'') 404), d)
          | Some existingTodo \<Rightarrow>
              await d (set_value P title) (\<lambda>title_set.
              await d (set_value P description) (\<lambda>description_set.
              await d (case title_set of
                         None \<Rightarrow> Inr None
                       | Some t \<Rightarrow> (case not_null t of
                                      Inl error \<Rightarrow> Inl error | Inr s \<Rightarrow> Inr (Some s)))
                (\<lambda>title_text.
                  let (result, d') =
                        update_todo d todoId (Date_now S div 1000) title_text description_set
                          (map_option (\<lambda>v. Boolean (Some v)) completed)
                  in case result of
                       [] \<Rightarrow>
                         (Inr (formatResponse (Success ''Todo updated successfully'') 200), d')
                     | t # rest \<Rightarrow>
                         (Inr (formatResponse (TodoSuccess ''Todo updated successfully'' t) 200),
                          d')))))))"

definition delete_todo :: "db \<Rightarrow> string \<Rightarrow> string \<Rightarrow> response \<times> db" where
  "delete_todo d userId todoId = catch_500
     (if \<not> isValidUUID todoId then
        (Inr (formatResponse (ErrorBody ''Bad Request'' ''Invalid todo ID format'') 400), d)
      else
        (case select_todo d todoId userId of
           None \<Rightarrow> (Inr (formatResponse (ErrorBody ''Not Found'' ''Todo not found'') 404), d)
         | Some existingTodo \<Rightarrow>
             (Inr (formatResponse (Success ''Todo deleted successfully'') 200),
              delete_todo_by_id d todoId)))"

definition revoked_200 :: response where
  "revoked_200 = formatResponse (Success ''Token revoked successfully'') 200"

definition revoke_404 :: response where
  "revoke_404 = formatResponse (ErrorBody ''Not Found'' ''Refresh token not found'') 404"

definition without_token :: "db \<Rightarrow> string \<Rightarrow> db" where
  "without_token d t = d\<lparr>refreshTokens := filter (\<lambda>r. rt_token r \<noteq> t) (refreshTokens d)\<rparr>"

section \<open>index.ts: the routes\<close>

text \<open>
  A route behind \<^verbatim>\<open>requireAuth\<close> runs its handler with the
  \<^verbatim>\<open>userId\<close> the guard stored. A throw that leaves the guard is answered by
  the framework.
\<close>

definition guarded ::
  "packages \<Rightarrow> Env \<Rightarrow> sys \<Rightarrow> string option \<Rightarrow> db \<Rightarrow> (string \<Rightarrow> response \<times> db)
     \<Rightarrow> response \<times> db" where
  "guarded P env S authHeader d handler =
     (case requireAuth P env (Date_now S) authHeader of
        Responded r \<Rightarrow> (r, d)
      | Next userId userEmail \<Rightarrow> handler userId
      | Uncaught e \<Rightarrow> (\<lparr>data = PlainText ''Internal Server Error'', status = 500\<rparr>, d))"

datatype request =
    PostRegister "jsval outcome"
  | PostToken "jsval outcome"
  | PostRefresh "string option"
  | PostRevoke "string option"
  | GetProfile "string option"
  | PutProfile "string option" "string option" "string option" "jsval option"
  | GetTodos "string option"
  | PostTodos "string option" "string option" "string option"
  | GetTodo "string option" string
  | PutTodo "string option" string "jsval outcome"
  | DeleteTodo "string option" string
  | GetRoot

fun app :: "packages \<Rightarrow> Env \<Rightarrow> sys \<Rightarrow> db \<Rightarrow> request \<Rightarrow> response \<times> db" where
  "app P env S d (PostRegister json) = post_register P S d json"
| "app P env S d (PostToken json) = post_token P env S d json"
| "app P env S d (PostRefresh refresh_token) = post_refresh P env S d refresh_token"
| "app P env S d (PostRevoke refresh_token) = post_revoke d refresh_token"
| "app P env S d (GetProfile auth) = guarded P env S auth d (get_profile P d)"
| "app P env S d (PutProfile auth name bio preferences) =
     guarded P env S auth d (\<lambda>userId. put_profile P S d userId name bio preferences)"
| "app P env S d (GetTodos auth) = guarded P env S auth d (get_todos d)"
| "app P env S d (PostTodos auth title description) =
     guarded P env S auth d (\<lambda>userId. post_todos S d userId title description)"
| "app P env S d (GetTodo auth todoId) =
     guarded P env S auth d (\<lambda>userId. get_todo d userId todoId)"
| "app P env S d (PutTodo auth todoId json) =
     guarded P env S auth d (\<lambda>userId. put_todo P S d userId todoId json)"
| "app P env S d (DeleteTodo auth todoId) =
     guarded P env S auth d (\<lambda>userId. delete_todo d userId todoId)"
| "app P env S d GetRoot = (formatResponse Docs 200, d)"

text \<open>The database after a sequence of requests, each with what it reads from outside.\<close>

fun run :: "packages \<Rightarrow> Env \<Rightarrow> db \<Rightarrow> (sys \<times> request) list \<Rightarrow> db" where
  "run P env d [] = d"
| "run P env d ((S, req) # rest) = run P env (snd (app P env S d req)) rest"

definition login_row :: "Env \<Rightarrow> sys \<Rightarrow> db \<Rightarrow> string \<Rightarrow> refreshToken" where
  "login_row env S d userId =
     \<lparr>rt_id = Suc (refreshTokens_seq d), rt_token = generateRefreshToken S, rt_userId = userId,
      rt_expiresAt = Date_now S div 1000 + JWT_REFRESH_EXPIRY env, rt_createdAt = unixepoch S\<rparr>"

text \<open>
  The constraints the schema declares: primary keys and \<^verbatim>\<open>unique()\<close> columns
  hold distinct values, and every \<^verbatim>\<open>user_id\<close> references a row of
  \<^verbatim>\<open>users\<close>.
\<close>

definition constraints :: "db \<Rightarrow> bool" where
  "constraints d =
     (distinct (map user_id (users d)) \<and>
      distinct (map user_email (users d)) \<and>
      distinct (map rt_token (refreshTokens d)) \<and>
      list_all (\<lambda>r. list_ex (\<lambda>u. user_id u = rt_userId r) (users d)) (refreshTokens d) \<and>
      distinct (map todo_id (todos d)) \<and>
      list_all (\<lambda>t. list_ex (\<lambda>u. user_id u = todo_userId t) (users d)) (todos d))"

definition expired_401 :: response where
  "expired_401 = formatResponse (ErrorBody ''Unauthorized'' ''Refresh token has expired'') 401"

definition invalid_401 :: response where
  "invalid_401 = formatResponse (ErrorBody ''Unauthorized'' ''Invalid refresh token'') 401"

text \<open>A later login that draws the token string \<open>t\<close> again.\<close>

definition reissues :: "string \<Rightarrow> sys \<times> request \<Rightarrow> bool" where
  "reissues t ev =
     (case snd ev of
        PostToken json \<Rightarrow> generateRefreshToken (fst ev) = t
      | _ \<Rightarrow> False)"

definition todo_404 :: response where
  "todo_404 = formatResponse (ErrorBody ''Not Found'' ''Todo not found'') 404"



text \<open>The row that \<^verbatim>\<open>PUT /profile\<close> writes over the row \<open>u\<close>.\<close>

definition updated_user :: "sys \<Rightarrow> user \<Rightarrow> string option \<Rightarrow> string option \<Rightarrow> string option \<Rightarrow> user" where
  "updated_user S u name bio preferences =
     u\<lparr>user_updatedAt := Date_now S div 1000,
       user_name := (case name of None \<Rightarrow> user_name u | Some n \<Rightarrow> n),
       user_bio := (case bio of None \<Rightarrow> user_bio u | Some b \<Rightarrow> b),
       user_preferences := (case preferences of None \<Rightarrow> user_preferences u | Some p \<Rightarrow> p)\<rparr>"

text \<open>A request body that is an object with the given string fields.\<close>

definition credentials :: "string \<Rightarrow> string \<Rightarrow> jsval" where
  "credentials email password = JObj [(''email'', JStr email), (''password'', JStr password)]"

section \<open>Sample values\<close>

definition alice_payload :: TokenPayload where
  "alice_payload =
     \<lparr>tp_userId = ''u1'', tp_email = ''a@b.com'', tp_type = ''access'',
      tp_iat = 1700000000, tp_nbf = None, tp_exp = Some (JNum 1700003600)\<rparr>"

text \<open>A token for the same account that is not to be used before a later time.\<close>

definition early_payload :: TokenPayload where
  "early_payload =
     \<lparr>tp_userId = ''u1'', tp_email = ''a@b.com'', tp_type = ''access'',
      tp_iat = 1700000000, tp_nbf = Some (JNum 1700000600), tp_exp = Some (JNum 1700003600)\<rparr>"

text \<open>
  A small instance of the parameters: two token strings decode, signatures check under
  one secret, a hash is the salt, a separator and the password, the JSON functions know
  three texts, and D1 refuses what is neither a string nor \<^verbatim>\<open>null\<close>.
\<close>

definition sample_packages :: packages where
  "sample_packages =
     \<lparr>jwt_decode = (\<lambda>t. if t = ''tok'' then Some alice_payload
                        else if t = ''early'' then Some early_payload else None),
      jwt_signature_ok = (\<lambda>t s. s = ''secret''),
      jwt_sign = (\<lambda>p s. ''tok''),
      bcrypt_hash = (\<lambda>pw salt. salt @ ''$'' @ pw),
      bcrypt_compare = (\<lambda>pw h. h \<noteq> [] \<and> tl (dropWhile (\<lambda>c. c \<noteq> CHR ''$'') h) = pw),
      JSON_stringify = (\<lambda>v. if v = JNull then ''null''
                            else if v = JArr [JNum 1, JNum 2] then ''[1,2]'' else ''{}''),
      JSON_parse = (\<lambda>t. if t = ''null'' then Inr JNull
                        else if t = ''[1,2]'' then Inr (JArr [JNum 1, JNum 2])
                        else if t = ''{}'' then Inr (JObj []) else Inl SyntaxError),
      converted_less = (\<lambda>v n. False),
      d1_bind = (\<lambda>v. Inl DriverError)\<rparr>"

definition sample_env :: Env where
  "sample_env =
     \<lparr>JWT_SECRET = ''secret'', JWT_ACCESS_EXPIRY = 3600, JWT_REFRESH_EXPIRY = 2592000\<rparr>"

definition alice :: user where
  "alice =
     \<lparr>user_id = ''u1'', user_email = ''a@b.com'', user_password = ''salt$password123'',
      user_name = ''A'', user_bio = [], user_preferences = ''{}'',
      user_createdAt = 1690000000, user_updatedAt = 1690000000\<rparr>"

definition bob :: user where
  "bob =
     \<lparr>user_id = ''u2'', user_email = ''bob@b.com'', user_password = ''salt$hunter2hunter2'',
      user_name = ''B'', user_bio = [], user_preferences = ''{}'',
      user_createdAt = 1690000000, user_updatedAt = 1690000000\<rparr>"

definition fresh_row :: refreshToken where
  "fresh_row =
     \<lparr>rt_id = 2, rt_token = ''r1'', rt_userId = ''u1'',
      rt_expiresAt = 1702591000, rt_createdAt = 1699999000\<rparr>"

definition stale_row :: refreshToken where
  "stale_row =
     \<lparr>rt_id = 1, rt_token = ''r0'', rt_userId = ''u2'',
      rt_expiresAt = 1692592000, rt_createdAt = 1690000000\<rparr>"

definition bobs_todo :: todo where
  "bobs_todo =
     \<lparr>todo_id = ''11111111-1111-4111-8111-111111111111'', todo_userId = ''u2'',
      todo_title = ''Learn'', todo_description = Some [], todo_completed = False,
      todo_createdAt = 1690000000, todo_updatedAt = 1690000000\<rparr>"

definition sample_db :: db where
  "sample_db =
     \<lparr>users = [alice, bob], refreshTokens = [stale_row, fresh_row], todos = [bobs_todo],
      refreshTokens_seq = 2\<rparr>"

definition sample_sys :: sys where
  "sample_sys =
     \<lparr>Date_now = 1700000000000, unixepoch = 1700000000,
      randomUUID = ''22222222-2222-4222-8222-222222222222'',
      randomValues = replicate 32 171, salt = ''salt''\<rparr>"

definition sample_events :: "(sys \<times> request) list" where
  "sample_events =
     [(sample_sys, PostRevoke (Some ''r1'')),
      (sample_sys, PostToken (Inr (credentials ''a@b.com'' ''password123''))),
      (sample_sys, GetTodos (Some ''Bearer tok''))]"

text \<open>A database whose one refresh token has expired and is the string that
  \<^verbatim>\<open>sample_sys\<close> draws.\<close>

definition recycled_row :: refreshToken where
  "recycled_row =
     \<lparr>rt_id = 1, rt_token = generateRefreshToken sample_sys, rt_userId = ''u1'',
      rt_expiresAt = 1692592000, rt_createdAt = 1690000000\<rparr>"

definition recycled_db :: db where
  "recycled_db =
     \<lparr>users = [alice, bob], refreshTokens = [recycled_row], todos = [], refreshTokens_seq = 1\<rparr>"


section \<open>Access token verification\<close>

lemma verifyAccessToken_cases:
  "verifyAccessToken P token secret now_ms =
     (case jwt_decode P token of
        None \<Rightarrow> Inr None
      | Some payload \<Rightarrow>
          if jwt_signature_ok P token secret
             \<and> numeric_date (tp_nbf payload) \<and> \<not> not_before payload (now_ms div 1000)
             \<and> numeric_date (tp_exp payload) \<and> \<not> expired payload (now_ms div 1000)
             \<and> tp_type payload = ''access''
          then Inr (Some payload) else Inr None)"
  by (simp add: verifyAccessToken_def jwt_verify_def try_catch_def split: option.splits)

text \<open>
  A token whose signature is valid, which has not expired and whose type is
  \<^verbatim>\<open>access\<close>, and which is refused all the same: its \<^verbatim>\<open>nbf\<close> is ten
  minutes after the clock.
\<close>

theorem verifyAccessToken_not_before:
  "jwt_decode sample_packages ''early'' = Some early_payload \<and>
   jwt_signature_ok sample_packages ''early'' ''secret'' \<and>
   \<not> expired early_payload (1700000000000 div 1000) \<and>
   tp_type early_payload = ''access'' \<and>
   verifyAccessToken sample_packages ''early'' ''secret'' 1700000000000 = Inr None"
  by (simp add: verifyAccessToken_cases sample_packages_def early_payload_def expired_def
      not_before_def numeric_date_def)

text \<open>
  C1, as the code has it. \<^verbatim>\<open>verifyAccessToken\<close> always returns (no throw
  reaches the caller). It returns the decoded payload exactly when the token decodes to
  it, its signature checks under the secret, its \<^verbatim>\<open>nbf\<close>, if it has one, is a
  number not later than the clock, its \<^verbatim>\<open>exp\<close>, if it has one, is a number
  later than the clock, and its type is \<^verbatim>\<open>access\<close>; on every other input it
  returns null.
\<close>

theorem verifyAccessToken_iff:
  "(\<exists>r. verifyAccessToken P token secret now_ms = Inr r) \<and>
   (verifyAccessToken P token secret now_ms = Inr (Some payload) \<longleftrightarrow>
      jwt_decode P token = Some payload \<and> jwt_signature_ok P token secret \<and>
      numeric_date (tp_nbf payload) \<and> \<not> not_before payload (now_ms div 1000) \<and>
      numeric_date (tp_exp payload) \<and> \<not> expired payload (now_ms div 1000) \<and>
      tp_type payload = ''access'') \<and>
   (\<not> (\<exists>p. jwt_decode P token = Some p \<and> jwt_signature_ok P token secret \<and>
          numeric_date (tp_nbf p) \<and> \<not> not_before p (now_ms div 1000) \<and>
          numeric_date (tp_exp p) \<and> \<not> expired p (now_ms div 1000) \<and>
          tp_type p = ''access'')
      \<longrightarrow> verifyAccessToken P token secret now_ms = Inr None)"
  by (auto simp: verifyAccessToken_cases split: option.splits)

theorem verifyAccessToken_iff_witness:
  "verifyAccessToken sample_packages ''tok'' ''secret'' 1700000000000 = Inr (Some alice_payload) \<and>
   verifyAccessToken sample_packages ''tok'' ''other'' 1700000000000 = Inr None \<and>
   verifyAccessToken sample_packages ''tok'' ''secret'' 1700003600000 = Inr None \<and>
   verifyAccessToken sample_packages ''garbage'' ''secret'' 1700000000000 = Inr None \<and>
   verifyAccessToken sample_packages ''early'' ''secret'' 1700000599000 = Inr None \<and>
   verifyAccessToken sample_packages ''early'' ''secret'' 1700000600000 = Inr (Some early_payload)"
  using verifyAccessToken_iff [of sample_packages "''tok''" "''secret''" 1700000000000 alice_payload]
    verifyAccessToken_iff [of sample_packages "''tok''" "''other''" 1700000000000 alice_payload]
    verifyAccessToken_iff [of sample_packages "''tok''" "''secret''" 1700003600000 alice_payload]
    verifyAccessToken_iff [of sample_packages "''garbage''" "''secret''" 1700000000000 alice_payload]
    verifyAccessToken_iff [of sample_packages "''early''" "''secret''" 1700000599000 early_payload]
    verifyAccessToken_iff [of sample_packages "''early''" "''secret''" 1700000600000 early_payload]
  by (simp add: sample_packages_def alice_payload_def early_payload_def expired_def
      not_before_def numeric_date_def)

section \<open>The request guard\<close>

lemma split_ne: "split c s \<noteq> []"
  by (induction s) (simp_all split: list.splits)

lemma split_Cons_other:
  "x \<noteq> c \<Longrightarrow> split c (x # xs) = (x # hd (split c xs)) # tl (split c xs)"
  using split_ne [of c xs] by (cases "split c xs") simp_all

lemma split_Cons_sep: "split c (c # xs) = [] # split c xs"
  by simp

lemma split_single: "split c s = [a] \<longleftrightarrow> s = a \<and> c \<notin> set a"
proof (induction s arbitrary: a)
  case Nil
  then show ?case by auto
next
  case (Cons x xs)
  show ?case
  proof (cases "x = c")
    case True
    then show ?thesis using split_ne [of c xs] by auto
  next
    case False
    obtain w ws where w: "split c xs = w # ws"
      using split_ne [of c xs] by (cases "split c xs") auto
    have "split c (x # xs) = [a] \<longleftrightarrow> (a \<noteq> [] \<and> hd a = x \<and> split c xs = [tl a])"
      using False w by (cases a) auto
    also have "\<dots> \<longleftrightarrow> (a \<noteq> [] \<and> hd a = x \<and> xs = tl a \<and> c \<notin> set (tl a))"
      using Cons.IH [of "tl a"] by blast
    also have "\<dots> \<longleftrightarrow> (x # xs = a \<and> c \<notin> set a)"
      using False by (cases a) auto
    finally show ?thesis .
  qed
qed

lemma split_two: "split c s = [a, b] \<longleftrightarrow> s = a @ c # b \<and> c \<notin> set a \<and> c \<notin> set b"
proof (induction s arbitrary: a)
  case Nil
  then show ?case by simp
next
  case (Cons x xs)
  show ?case
  proof (cases "x = c")
    case True
    have "split c (x # xs) = [a, b] \<longleftrightarrow> (a = [] \<and> split c xs = [b])"
      using True by auto
    also have "\<dots> \<longleftrightarrow> (a = [] \<and> xs = b \<and> c \<notin> set b)"
      using split_single [of c xs b] by blast
    also have "\<dots> \<longleftrightarrow> (x # xs = a @ c # b \<and> c \<notin> set a \<and> c \<notin> set b)"
      using True by (cases a) auto
    finally show ?thesis .
  next
    case False
    obtain w ws where w: "split c xs = w # ws"
      using split_ne [of c xs] by (cases "split c xs") auto
    have "split c (x # xs) = [a, b] \<longleftrightarrow> (a \<noteq> [] \<and> hd a = x \<and> split c xs = [tl a, b])"
      using False w by (cases a) auto
    also have "\<dots> \<longleftrightarrow> (a \<noteq> [] \<and> hd a = x \<and> xs = tl a @ c # b \<and> c \<notin> set (tl a) \<and> c \<notin> set b)"
      using Cons.IH [of "tl a"] by blast
    also have "\<dots> \<longleftrightarrow> (x # xs = a @ c # b \<and> c \<notin> set a \<and> c \<notin> set b)"
      using False by (cases a) auto
    finally show ?thesis .
  qed
qed

lemma extractBearerToken_split:
  "extractBearerToken (Some h) =
     (case split CHR '' '' h of
        [a, b] \<Rightarrow> if a = ''Bearer'' then Some b else None
      | _ \<Rightarrow> None)"
proof (cases "h = []")
  case True
  then show ?thesis by (simp add: extractBearerToken_def falsy_def)
next
  case False
  obtain parts where p: "split CHR '' '' h = parts" by simp
  show ?thesis
  proof (cases parts)
    case Nil
    with p False show ?thesis by (simp add: extractBearerToken_def falsy_def)
  next
    case (Cons a as)
    note c1 = this
    show ?thesis
    proof (cases as)
      case Nil
      with p c1 False show ?thesis by (simp add: extractBearerToken_def falsy_def)
    next
      case (Cons b bs)
      with p c1 False show ?thesis
        by (cases bs) (simp_all add: extractBearerToken_def falsy_def)
    qed
  qed
qed

lemma extractBearerToken_Some:
  "extractBearerToken authHeader = Some token \<longleftrightarrow>
     (\<exists>h. authHeader = Some h \<and> split CHR '' '' h = [''Bearer'', token])"
proof (cases authHeader)
  case None
  then show ?thesis by (simp add: extractBearerToken_def falsy_def)
next
  case (Some h)
  have "extractBearerToken (Some h) = Some token \<longleftrightarrow> split CHR '' '' h = [''Bearer'', token]"
    unfolding extractBearerToken_split
    by (simp split: list.splits)
  with Some show ?thesis by simp
qed

lemma verifyAccessToken_returns: "\<exists>r. verifyAccessToken P t s n = Inr r"
  by (cases "jwt_decode P t") (simp_all add: verifyAccessToken_cases)

lemma requireAuth_cases:
  "requireAuth P env now_ms authHeader =
     (case extractBearerToken authHeader of
        None \<Rightarrow> Responded header_401
      | Some t \<Rightarrow>
          if t = [] then Responded header_401
          else (case verifyAccessToken P t (JWT_SECRET env) now_ms of
                  Inr (Some payload) \<Rightarrow> Next (tp_userId payload) (tp_email payload)
                | _ \<Rightarrow> Responded token_401))"
proof (cases "extractBearerToken authHeader")
  case None
  then show ?thesis by (simp add: requireAuth_def falsy_def header_401_def)
next
  case (Some t)
  obtain r where r: "verifyAccessToken P t (JWT_SECRET env) now_ms = Inr r"
    using verifyAccessToken_returns by blast
  show ?thesis
  proof (cases "t = []")
    case True
    with Some show ?thesis by (simp add: requireAuth_def falsy_def header_401_def)
  next
    case False
    with Some r show ?thesis
      by (cases r) (simp_all add: requireAuth_def falsy_def token_401_def)
  qed
qed

text \<open>
  C4. The guard takes a token from the header value exactly when the value splits on
  single spaces into two parts and the first is \<^verbatim>\<open>Bearer\<close>, compared as
  written. It calls the handler, with the payload's \<^verbatim>\<open>userId\<close> and
  \<^verbatim>\<open>email\<close>, exactly when that token is not empty and verifies. A missing
  header or any other shape is answered with the 401 about the header, and whatever does
  not reach the handler is a 401.
\<close>

theorem requireAuth_bearer:
  "(extractBearerToken authHeader = Some token \<longleftrightarrow>
      (\<exists>h. authHeader = Some h \<and> split CHR '' '' h = [''Bearer'', token])) \<and>
   (requireAuth P env now_ms authHeader = Next userId userEmail \<longleftrightarrow>
      (\<exists>h t payload. authHeader = Some h \<and> split CHR '' '' h = [''Bearer'', t] \<and> t \<noteq> [] \<and>
         verifyAccessToken P t (JWT_SECRET env) now_ms = Inr (Some payload) \<and>
         userId = tp_userId payload \<and> userEmail = tp_email payload)) \<and>
   (\<not> (\<exists>h t. authHeader = Some h \<and> split CHR '' '' h = [''Bearer'', t] \<and> t \<noteq> []) \<longrightarrow>
      requireAuth P env now_ms authHeader = Responded header_401) \<and>
   ((\<exists>u e. requireAuth P env now_ms authHeader = Next u e) \<or>
    (\<exists>r. requireAuth P env now_ms authHeader = Responded r \<and> status r = 401))"
proof (cases "extractBearerToken authHeader")
  case None
  then have no: "\<not> (\<exists>h t. authHeader = Some h \<and> split CHR '' '' h = [''Bearer'', t])"
    using extractBearerToken_Some [of authHeader] by simp
  have r: "requireAuth P env now_ms authHeader = Responded header_401"
    using None by (simp add: requireAuth_cases)
  have s: "status header_401 = 401"
    by (simp add: header_401_def formatResponse_def)
  show ?thesis
    using no r s extractBearerToken_Some [of authHeader token] by auto
next
  case (Some t)
  then obtain h where h: "authHeader = Some h" "split CHR '' '' h = [''Bearer'', t]"
    using extractBearerToken_Some [of authHeader t] by blast
  have first: "extractBearerToken authHeader = Some token \<longleftrightarrow>
      (\<exists>h. authHeader = Some h \<and> split CHR '' '' h = [''Bearer'', token])"
    by (rule extractBearerToken_Some)
  have s1: "status header_401 = 401" and s2: "status token_401 = 401"
    by (simp_all add: header_401_def token_401_def formatResponse_def)
  show ?thesis
  proof (cases "t = []")
    case True
    then have r: "requireAuth P env now_ms authHeader = Responded header_401"
      using Some by (simp add: requireAuth_cases)
    have no: "\<not> (\<exists>h t. authHeader = Some h \<and> split CHR '' '' h = [''Bearer'', t] \<and> t \<noteq> [])"
      using h True by auto
    show ?thesis using first r s1 no by auto
  next
    case False
    obtain r where r: "verifyAccessToken P t (JWT_SECRET env) now_ms = Inr r"
      using verifyAccessToken_returns by blast
    have yes: "\<exists>h t. authHeader = Some h \<and> split CHR '' '' h = [''Bearer'', t] \<and> t \<noteq> []"
      using h False by blast
    show ?thesis
    proof (cases r)
      case None
      then have q: "requireAuth P env now_ms authHeader = Responded token_401"
        using Some False r by (simp add: requireAuth_cases)
      have "\<not> (\<exists>h t payload. authHeader = Some h \<and> split CHR '' '' h = [''Bearer'', t] \<and> t \<noteq> [] \<and>
         verifyAccessToken P t (JWT_SECRET env) now_ms = Inr (Some payload) \<and>
         userId = tp_userId payload \<and> userEmail = tp_email payload)"
        using h r None by auto
      then show ?thesis using first q s2 yes by auto
    next
      case (Some payload)
      then have q: "requireAuth P env now_ms authHeader =
          Next (tp_userId payload) (tp_email payload)"
        using \<open>extractBearerToken authHeader = Some t\<close> False r by (simp add: requireAuth_cases)
      have "(\<exists>h t p. authHeader = Some h \<and> split CHR '' '' h = [''Bearer'', t] \<and> t \<noteq> [] \<and>
         verifyAccessToken P t (JWT_SECRET env) now_ms = Inr (Some p) \<and>
         userId = tp_userId p \<and> userEmail = tp_email p)
         \<longleftrightarrow> userId = tp_userId payload \<and> userEmail = tp_email payload"
        using h r Some False by auto
      then show ?thesis using first q yes by auto
    qed
  qed
qed

theorem requireAuth_bearer_witness:
  "requireAuth sample_packages sample_env 5000 (Some ''Bearer tok'') = Next ''u1'' ''a@b.com'' \<and>
   extractBearerToken (Some ''Bearer tok'') = Some ''tok'' \<and>
   extractBearerToken (Some ''bearer tok'') = None \<and>
   extractBearerToken (Some ''Bearer'') = None \<and>
   extractBearerToken (Some ''Bearer tok extra'') = None \<and>
   extractBearerToken None = None \<and>
   requireAuth sample_packages sample_env 5000 (Some ''bearer tok'') = Responded header_401 \<and>
   requireAuth sample_packages sample_env 5000 None = Responded header_401 \<and>
   requireAuth sample_packages sample_env 5000 (Some ''Bearer garbage'') = Responded token_401"
proof -
  have sp: "split CHR '' '' ''Bearer tok'' = [''Bearer'', ''tok'']"
    by simp
  have v: "verifyAccessToken sample_packages ''tok'' (JWT_SECRET sample_env) 5000
             = Inr (Some alice_payload)"
    by (simp add: verifyAccessToken_cases sample_packages_def sample_env_def alice_payload_def
        expired_def not_before_def numeric_date_def)
  have "requireAuth sample_packages sample_env 5000 (Some ''Bearer tok'') = Next ''u1'' ''a@b.com''"
    using requireAuth_bearer [of "Some ''Bearer tok''" "''tok''" sample_packages sample_env 5000
        "''u1''" "''a@b.com''"] sp v
    by (simp add: alice_payload_def)
  moreover have "extractBearerToken (Some ''Bearer tok'') = Some ''tok''"
    "extractBearerToken (Some ''bearer tok'') = None"
    "extractBearerToken (Some ''Bearer'') = None"
    "extractBearerToken (Some ''Bearer tok extra'') = None"
    "extractBearerToken None = None"
    by (simp_all add: extractBearerToken_split) (simp add: extractBearerToken_def falsy_def)
  moreover have "requireAuth sample_packages sample_env 5000 (Some ''bearer tok'') = Responded header_401"
    "requireAuth sample_packages sample_env 5000 None = Responded header_401"
    by (simp_all add: requireAuth_cases extractBearerToken_split)
       (simp add: extractBearerToken_def falsy_def)
  moreover have "requireAuth sample_packages sample_env 5000 (Some ''Bearer garbage'') = Responded token_401"
    by (simp add: requireAuth_cases extractBearerToken_split verifyAccessToken_cases
        sample_packages_def sample_env_def)
  ultimately show ?thesis by simp
qed

section \<open>Revocation\<close>

lemma falsy_Some [simp]: "falsy (Some s) \<longleftrightarrow> s = []"
  by (simp add: falsy_def)

lemma falsy_None [simp]: "falsy None"
  by (simp add: falsy_def)

lemma filter_absent:
  "\<not> list_ex (\<lambda>r. rt_token r = t) rows \<Longrightarrow> filter (\<lambda>r. rt_token r \<noteq> t) rows = rows"
  by (induction rows) auto

lemma filter_present_empty:
  "filter (\<lambda>r. rt_token r = t) rows = [] \<longleftrightarrow> \<not> list_ex (\<lambda>r. rt_token r = t) rows"
  by (induction rows) auto

lemma without_token_absent:
  "\<not> list_ex (\<lambda>r. rt_token r = t) (refreshTokens d) \<Longrightarrow> without_token d t = d"
  by (simp add: without_token_def filter_absent)

lemma without_token_no_match:
  "\<not> list_ex (\<lambda>r. rt_token r = t) (refreshTokens (without_token d t))"
  by (simp add: without_token_def list_ex_iff)

lemma post_revoke_cases:
  "t \<noteq> [] \<Longrightarrow> post_revoke d (Some t) =
     (if list_ex (\<lambda>r. rt_token r = t) (refreshTokens d)
      then (revoked_200, without_token d t) else (revoke_404, d))"
  using without_token_absent [of t d]
  by (simp add: post_revoke_def catch_500_def delete_refreshToken_def filter_present_empty
      revoked_200_def revoke_404_def without_token_def)

lemma filter_distinct_remove1:
  "distinct (map rt_token rows) \<Longrightarrow> r \<in> set rows \<Longrightarrow>
     filter (\<lambda>x. rt_token x \<noteq> rt_token r) rows = remove1 r rows"
proof (induction rows)
  case Nil
  then show ?case by simp
next
  case (Cons x xs)
  show ?case
  proof (cases "x = r")
    case True
    have "\<not> list_ex (\<lambda>y. rt_token y = rt_token r) xs"
      using Cons.prems(1) True by (force simp: list_ex_iff image_iff)
    then show ?thesis using True by (simp add: filter_absent)
  next
    case False
    then have "r \<in> set xs" using Cons.prems(2) by simp
    moreover have "rt_token x \<noteq> rt_token r"
      using Cons.prems(1) \<open>r \<in> set xs\<close> by auto
    ultimately show ?thesis using Cons False by simp
  qed
qed

text \<open>
  C8. With a token string supplied, revoke deletes the rows whose token is that string
  and answers 200 with the success message; under the uniqueness of the token column
  that is exactly the one matching row, and the other tables are untouched. When no row
  matches it answers 404 \<^verbatim>\<open>Refresh token not found\<close> and changes nothing; a
  revocation repeated after any revocation is such a case, so it answers 404 each time.
\<close>

theorem post_revoke_deletes:
  assumes "t \<noteq> []"
  shows "(list_ex (\<lambda>r. rt_token r = t) (refreshTokens d) \<longrightarrow>
            post_revoke d (Some t) =
              (\<lparr>data = Success ''Token revoked successfully'', status = 200\<rparr>,
               without_token d t)) \<and>
         (\<forall>r. distinct (map rt_token (refreshTokens d)) \<and> r \<in> set (refreshTokens d) \<and> rt_token r = t
            \<longrightarrow> refreshTokens (without_token d t) = remove1 r (refreshTokens d)) \<and>
         users (without_token d t) = users d \<and> todos (without_token d t) = todos d \<and>
         (\<not> list_ex (\<lambda>r. rt_token r = t) (refreshTokens d) \<longrightarrow>
            post_revoke d (Some t) =
              (\<lparr>data = ErrorBody ''Not Found'' ''Refresh token not found'', status = 404\<rparr>, d)) \<and>
         post_revoke (snd (post_revoke d (Some t))) (Some t) =
           (\<lparr>data = ErrorBody ''Not Found'' ''Refresh token not found'', status = 404\<rparr>,
            snd (post_revoke d (Some t)))"
proof -
  have ok: "revoked_200 = \<lparr>data = Success ''Token revoked successfully'', status = 200\<rparr>"
    by (simp add: revoked_200_def formatResponse_def)
  have nf: "revoke_404 = \<lparr>data = ErrorBody ''Not Found'' ''Refresh token not found'', status = 404\<rparr>"
    by (simp add: revoke_404_def formatResponse_def)
  have again: "post_revoke (snd (post_revoke d (Some t))) (Some t)
           = (revoke_404, snd (post_revoke d (Some t)))"
    using assms without_token_no_match [of t d]
    by (simp add: post_revoke_cases)
  have exact: "\<forall>r. distinct (map rt_token (refreshTokens d)) \<and> r \<in> set (refreshTokens d) \<and> rt_token r = t
            \<longrightarrow> refreshTokens (without_token d t) = remove1 r (refreshTokens d)"
    using filter_distinct_remove1 by (auto simp: without_token_def)
  have frame: "users (without_token d t) = users d" "todos (without_token d t) = todos d"
    by (simp_all add: without_token_def)
  have hit: "list_ex (\<lambda>r. rt_token r = t) (refreshTokens d) \<longrightarrow>
      post_revoke d (Some t) = (revoked_200, without_token d t)"
    using assms by (simp add: post_revoke_cases)
  have miss: "\<not> list_ex (\<lambda>r. rt_token r = t) (refreshTokens d) \<longrightarrow>
      post_revoke d (Some t) = (revoke_404, d)"
    using assms by (simp add: post_revoke_cases)
  show ?thesis
    using hit exact frame miss again unfolding ok nf by blast
qed

theorem post_revoke_deletes_witness:
  "post_revoke sample_db (Some ''r1'') =
     (\<lparr>data = Success ''Token revoked successfully'', status = 200\<rparr>,
      without_token sample_db ''r1'') \<and>
   refreshTokens (without_token sample_db ''r1'') = [stale_row] \<and>
   post_revoke (without_token sample_db ''r1'') (Some ''r1'') =
     (\<lparr>data = ErrorBody ''Not Found'' ''Refresh token not found'', status = 404\<rparr>,
      without_token sample_db ''r1'') \<and>
   post_revoke sample_db (Some ''nope'') =
     (\<lparr>data = ErrorBody ''Not Found'' ''Refresh token not found'', status = 404\<rparr>, sample_db)"
proof -
  have t: "''r1'' \<noteq> ([] :: string)" "''nope'' \<noteq> ([] :: string)" by simp_all
  have p: "list_ex (\<lambda>r. rt_token r = ''r1'') (refreshTokens sample_db)"
    by (simp add: sample_db_def fresh_row_def stale_row_def)
  have n: "\<not> list_ex (\<lambda>r. rt_token r = ''nope'') (refreshTokens sample_db)"
    by (simp add: sample_db_def fresh_row_def stale_row_def)
  have r: "refreshTokens (without_token sample_db ''r1'') = [stale_row]"
    by (simp add: without_token_def sample_db_def fresh_row_def stale_row_def)
  have s: "snd (post_revoke sample_db (Some ''r1'')) = without_token sample_db ''r1''"
    using post_revoke_deletes [OF t(1), of sample_db] p by simp
  show ?thesis
    using post_revoke_deletes [OF t(1), of sample_db] post_revoke_deletes [OF t(2), of sample_db]
      p n r s by simp
qed

section \<open>The refresh-token table under every request\<close>

lemma snd_catch_500_any [simp]: "snd (catch_500 r) = snd r"
  by (cases r; cases "fst r") (simp_all add: catch_500_def)

lemma await_cases:
  assumes "\<And>error. Q (Inl error, d)" "\<And>v. step = Inr v \<Longrightarrow> Q (rest v)"
  shows "Q (await d step rest)"
  using assms by (cases step) (simp_all add: await_def)

lemma await_Inr [simp]: "await d (Inr v) rest = rest v"
  by (simp add: await_def)

lemma await_Inl [simp]: "await d (Inl error) rest = (Inl error, d)"
  by (simp add: await_def)

lemma insert_user_refreshTokens:
  "insert_user d u = Inr d' \<Longrightarrow> refreshTokens d' = refreshTokens d"
  by (auto simp: insert_user_def split: if_splits)

lemma post_register_refreshTokens:
  "refreshTokens (snd (post_register P S d json)) = refreshTokens d"
  unfolding post_register_def snd_catch_500_any Let_def
  by (intro await_cases [where Q = "\<lambda>r. refreshTokens (snd r) = refreshTokens d"]
        if_split [where P = "\<lambda>r. refreshTokens (snd r) = refreshTokens d", THEN iffD2]
        option.split [where P = "\<lambda>r. refreshTokens (snd r) = refreshTokens d", THEN iffD2]
        conjI impI allI)
     (simp_all add: insert_user_refreshTokens)

lemma get_profile_db: "snd (get_profile P d userId) = d"
  by (simp add: get_profile_def split: option.splits sum.splits)

lemma put_profile_refreshTokens:
  "refreshTokens (snd (put_profile P S d userId name bio preferences)) = refreshTokens d"
  by (simp add: put_profile_def update_user_def Let_def split: list.splits sum.splits)

lemma get_todos_db: "snd (get_todos d userId) = d"
  by (simp add: get_todos_def)

lemma post_todos_refreshTokens:
  "refreshTokens (snd (post_todos S d userId title description)) = refreshTokens d"
  by (simp add: post_todos_def insert_todo_def Let_def)

lemma get_todo_db: "snd (get_todo d userId todoId) = d"
  by (simp add: get_todo_def split: option.splits)

lemma update_todo_refreshTokens:
  "refreshTokens (snd (update_todo d todoId updatedAt title description completed))
     = refreshTokens d"
  by (simp add: update_todo_def Let_def)

lemma put_todo_refreshTokens:
  "refreshTokens (snd (put_todo P S d userId todoId json)) = refreshTokens d"
  unfolding put_todo_def snd_catch_500_any Let_def
  by (intro await_cases [where Q = "\<lambda>r. refreshTokens (snd r) = refreshTokens d"]
        if_split [where P = "\<lambda>r. refreshTokens (snd r) = refreshTokens d", THEN iffD2]
        option.split [where P = "\<lambda>r. refreshTokens (snd r) = refreshTokens d", THEN iffD2]
        conjI impI allI)
     (simp_all add: split_beta update_todo_refreshTokens split: list.splits)

lemma delete_todo_refreshTokens:
  "refreshTokens (snd (delete_todo d userId todoId)) = refreshTokens d"
  by (simp add: delete_todo_def delete_todo_by_id_def split: option.splits)

lemma guarded_refreshTokens:
  "(\<And>userId. refreshTokens (snd (handler userId)) = refreshTokens d) \<Longrightarrow>
     refreshTokens (snd (guarded P env S auth d handler)) = refreshTokens d"
  by (simp add: guarded_def split: guard.splits)


lemma insert_refreshToken_rows:
  "insert_refreshToken d S token userId (Date_now S + L * 1000) = Inr d' \<Longrightarrow>
     refreshTokens d' = refreshTokens d @
       [\<lparr>rt_id = Suc (refreshTokens_seq d), rt_token = token, rt_userId = userId,
         rt_expiresAt = Date_now S div 1000 + L, rt_createdAt = unixepoch S\<rparr>]
     \<and> users d' = users d \<and> todos d' = todos d"
  by (auto simp: insert_refreshToken_def split: if_splits)

lemma post_token_refreshTokens:
  "refreshTokens (snd (post_token P env S d json)) = refreshTokens d \<or>
   (\<exists>userId. refreshTokens (snd (post_token P env S d json))
      = refreshTokens d @ [login_row env S d userId])"
  unfolding post_token_def snd_catch_500_any Let_def
proof (intro await_cases [where Q = "\<lambda>r. refreshTokens (snd r) = refreshTokens d \<or>
          (\<exists>userId. refreshTokens (snd r) = refreshTokens d @ [login_row env S d userId])"]
        if_split [where P = "\<lambda>r. refreshTokens (snd r) = refreshTokens d \<or>
          (\<exists>userId. refreshTokens (snd r) = refreshTokens d @ [login_row env S d userId])",
          THEN iffD2]
        option.split [where P = "\<lambda>r. refreshTokens (snd r) = refreshTokens d \<or>
          (\<exists>userId. refreshTokens (snd r) = refreshTokens d @ [login_row env S d userId])",
          THEN iffD2]
        conjI impI allI)
qed (auto dest!: insert_refreshToken_rows simp: login_row_def)

lemma post_refresh_refreshTokens:
  "refreshTokens (snd (post_refresh P env S d refresh_token)) = refreshTokens d \<or>
   (\<exists>t. refreshTokens (snd (post_refresh P env S d refresh_token))
      = filter (\<lambda>r. rt_token r \<noteq> t) (refreshTokens d))"
  by (simp add: post_refresh_def delete_refreshToken_def Let_def split: option.splits prod.splits)
     blast

lemma post_revoke_refreshTokens:
  "refreshTokens (snd (post_revoke d refresh_token)) = refreshTokens d \<or>
   (\<exists>t. refreshTokens (snd (post_revoke d refresh_token))
      = filter (\<lambda>r. rt_token r \<noteq> t) (refreshTokens d))"
  by (simp add: post_revoke_def delete_refreshToken_def Let_def split: option.splits prod.splits)
     blast

lemma app_refreshTokens:
  "refreshTokens (snd (app P env S d req)) = refreshTokens d \<or>
   (\<exists>t. refreshTokens (snd (app P env S d req)) = filter (\<lambda>r. rt_token r \<noteq> t) (refreshTokens d)) \<or>
   (\<exists>json userId. req = PostToken json \<and>
      refreshTokens (snd (app P env S d req)) = refreshTokens d @ [login_row env S d userId])"
proof (cases req)
  case (PostRegister json)
  then show ?thesis by (simp add: post_register_refreshTokens)
next
  case (PostToken json)
  then show ?thesis using post_token_refreshTokens [of P env S d json] by auto
next
  case (PostRefresh t)
  then show ?thesis using post_refresh_refreshTokens [of P env S d t] by auto
next
  case (PostRevoke t)
  then show ?thesis using post_revoke_refreshTokens [of d t] by auto
next
  case (GetProfile auth)
  then show ?thesis by (simp add: guarded_refreshTokens get_profile_db)
next
  case (PutProfile auth name bio preferences)
  then show ?thesis by (simp add: guarded_refreshTokens put_profile_refreshTokens)
next
  case (GetTodos auth)
  then show ?thesis by (simp add: guarded_refreshTokens get_todos_db)
next
  case (PostTodos auth title description)
  then show ?thesis by (simp add: guarded_refreshTokens post_todos_refreshTokens)
next
  case (GetTodo auth todoId)
  then show ?thesis by (simp add: guarded_refreshTokens get_todo_db)
next
  case (PutTodo auth todoId json)
  then show ?thesis by (simp add: guarded_refreshTokens put_todo_refreshTokens)
next
  case (DeleteTodo auth todoId)
  then show ?thesis by (simp add: guarded_refreshTokens delete_todo_refreshTokens)
next
  case GetRoot
  then show ?thesis by simp
qed

section \<open>Refresh\<close>

lemma join_inner:
  "concat (map (\<lambda>u. if rt_userId r = user_id u then (if rt_token r = t then [(r, u)] else []) else []) us)
     = (if rt_token r = t then map (Pair r) (filter (\<lambda>u. rt_userId r = user_id u) us) else [])"
  by (induction us) simp_all

lemma join_absent:
  "\<not> list_ex (\<lambda>r. rt_token r = t) rows \<Longrightarrow>
     [(r, u). r \<leftarrow> rows, u \<leftarrow> us, rt_userId r = user_id u, rt_token r = t] = []"
  by (induction rows) (simp_all add: join_inner)

lemma join_distinct:
  "distinct (map rt_token rows) \<Longrightarrow> r \<in> set rows \<Longrightarrow>
     [(x, u). x \<leftarrow> rows, u \<leftarrow> us, rt_userId x = user_id u, rt_token x = rt_token r]
       = map (Pair r) (filter (\<lambda>u. rt_userId r = user_id u) us)"
proof (induction rows)
  case Nil
  then show ?case by simp
next
  case (Cons x xs)
  show ?case
  proof (cases "x = r")
    case True
    have "\<not> list_ex (\<lambda>y. rt_token y = rt_token r) xs"
      using Cons.prems(1) True by (force simp: list_ex_iff image_iff)
    from join_absent [OF this, of us] show ?thesis
      using True by (simp add: join_inner)
  next
    case False
    then have "r \<in> set xs" using Cons.prems(2) by simp
    moreover have "rt_token x \<noteq> rt_token r"
      using Cons.prems(1) \<open>r \<in> set xs\<close> by auto
    ultimately show ?thesis using Cons by (simp add: join_inner)
  qed
qed

lemma select_token_with_user_None:
  "\<not> list_ex (\<lambda>r. rt_token r = t) (refreshTokens d) \<Longrightarrow> select_token_with_user d t = None"
  by (simp add: select_token_with_user_def join_absent)

lemma filter_first: "list_ex P xs \<Longrightarrow> \<exists>x rest. filter P xs = x # rest \<and> List.find P xs = Some x"
  by (induction xs) auto

lemma select_token_with_user_Some:
  assumes "constraints d" "r \<in> set (refreshTokens d)"
  shows "\<exists>u. select_token_with_user d (rt_token r) = Some (r, u) \<and>
              select_user_by_id d (rt_userId r) = Some u \<and> user_id u = rt_userId r"
proof -
  have d: "distinct (map rt_token (refreshTokens d))"
    using assms(1) by (simp add: constraints_def)
  have "list_ex (\<lambda>u. user_id u = rt_userId r) (users d)"
    using assms by (simp add: constraints_def list_all_iff)
  from filter_first [OF this] obtain u rest where
    u: "filter (\<lambda>u. user_id u = rt_userId r) (users d) = u # rest"
       "List.find (\<lambda>u. user_id u = rt_userId r) (users d) = Some u"
    by blast
  have eq: "(\<lambda>u. rt_userId r = user_id u) = (\<lambda>u. user_id u = rt_userId r)"
    by auto
  have "select_token_with_user d (rt_token r) = Some (r, u)"
    unfolding select_token_with_user_def join_distinct [OF d assms(2)] eq u(1) by simp
  moreover have "user_id u = rt_userId r"
    using u(2) by (auto simp: find_Some_iff)
  ultimately show ?thesis using u(2) by (simp add: select_user_by_id_def)
qed

lemma post_refresh_absent:
  "t \<noteq> [] \<Longrightarrow> \<not> list_ex (\<lambda>r. rt_token r = t) (refreshTokens d) \<Longrightarrow>
     post_refresh P env S d (Some t) = (invalid_401, d)"
  by (simp add: post_refresh_def select_token_with_user_None catch_500_def invalid_401_def falsy_def)

lemma post_refresh_present:
  assumes "constraints d" "r \<in> set (refreshTokens d)" "rt_token r \<noteq> []"
    "select_user_by_id d (rt_userId r) = Some u"
  shows "post_refresh P env S d (Some (rt_token r)) =
     (if rt_expiresAt r * 1000 < Date_now S then (expired_401, without_token d (rt_token r))
      else (formatResponse
              (Refreshed (generateAccessToken P (user_id u) (user_email u) (JWT_SECRET env)
                            (JWT_ACCESS_EXPIRY env) (Date_now S))
                 (JWT_ACCESS_EXPIRY env)) 200, d))"
proof -
  from select_token_with_user_Some [OF assms(1,2)] assms(4)
  have "select_token_with_user d (rt_token r) = Some (r, u)" by auto
  then show ?thesis
    using assms(3)
    by (simp add: post_refresh_def catch_500_def expired_401_def falsy_def
        delete_refreshToken_def without_token_def Let_def)
qed

lemma app_keeps_absent:
  assumes "\<not> list_ex (\<lambda>r. rt_token r = t) (refreshTokens d)" "\<not> reissues t (S, req)"
  shows "\<not> list_ex (\<lambda>r. rt_token r = t) (refreshTokens (snd (app P env S d req)))"
proof -
  consider
    (same) "refreshTokens (snd (app P env S d req)) = refreshTokens d"
  | (del) u where "refreshTokens (snd (app P env S d req))
        = filter (\<lambda>r. rt_token r \<noteq> u) (refreshTokens d)"
  | (login) json userId where "req = PostToken json"
      "refreshTokens (snd (app P env S d req)) = refreshTokens d @ [login_row env S d userId]"
    using app_refreshTokens [of P env S d req] by blast
  then show ?thesis
  proof cases
    case same
    then show ?thesis using assms(1) by simp
  next
    case del
    then show ?thesis using assms(1) by (auto simp: list_ex_iff)
  next
    case login
    then show ?thesis
      using assms by (auto simp: list_ex_iff reissues_def login_row_def)
  qed
qed

lemma run_keeps_absent:
  "\<not> list_ex (\<lambda>r. rt_token r = t) (refreshTokens d) \<Longrightarrow> \<not> list_ex (reissues t) evs \<Longrightarrow>
     \<not> list_ex (\<lambda>r. rt_token r = t) (refreshTokens (run P env d evs))"
proof (induction evs arbitrary: d)
  case Nil
  then show ?case by simp
next
  case (Cons ev evs)
  obtain S req where ev: "ev = (S, req)" by (cases ev)
  have "\<not> list_ex (\<lambda>r. rt_token r = t) (refreshTokens (snd (app P env S d req)))"
    using app_keeps_absent [of t d S req] Cons.prems ev by simp
  then show ?case using Cons.IH Cons.prems(2) ev by simp
qed

text \<open>
  C2, as the code has it. A refresh request whose token string matches a stored row that
  has expired (under the schema's constraints, with the string not empty) deletes that
  row, leaves the rest of the table, and answers 401 with the expiry message. From then
  on, after any requests in which no login draws the same string again, a refresh with
  that string answers 401 \<^verbatim>\<open>Invalid refresh token\<close>, not the expiry message, and
  a revoke answers 404; neither changes the database.
\<close>

theorem post_refresh_expired:
  assumes "constraints d" "t \<noteq> []" "r \<in> set (refreshTokens d)" "rt_token r = t"
    "rt_expiresAt r * 1000 < Date_now S" "\<not> list_ex (reissues t) evs"
  shows "post_refresh P env S d (Some t) =
       (\<lparr>data = ErrorBody ''Unauthorized'' ''Refresh token has expired'', status = 401\<rparr>,
        without_token d t) \<and>
     refreshTokens (without_token d t) = remove1 r (refreshTokens d) \<and>
     r \<notin> set (refreshTokens (without_token d t)) \<and>
     post_refresh P env S' (run P env (without_token d t) evs) (Some t) =
       (\<lparr>data = ErrorBody ''Unauthorized'' ''Invalid refresh token'', status = 401\<rparr>,
        run P env (without_token d t) evs) \<and>
     post_revoke (run P env (without_token d t) evs) (Some t) =
       (\<lparr>data = ErrorBody ''Not Found'' ''Refresh token not found'', status = 404\<rparr>,
        run P env (without_token d t) evs)"
proof -
  have e1: "expired_401 = \<lparr>data = ErrorBody ''Unauthorized'' ''Refresh token has expired'', status = 401\<rparr>"
    by (simp add: expired_401_def formatResponse_def)
  have e2: "invalid_401 = \<lparr>data = ErrorBody ''Unauthorized'' ''Invalid refresh token'', status = 401\<rparr>"
    by (simp add: invalid_401_def formatResponse_def)
  have e3: "revoke_404 = \<lparr>data = ErrorBody ''Not Found'' ''Refresh token not found'', status = 404\<rparr>"
    by (simp add: revoke_404_def formatResponse_def)
  obtain u where u: "select_user_by_id d (rt_userId r) = Some u"
    using select_token_with_user_Some [OF assms(1,3)] by blast
  have first: "post_refresh P env S d (Some t) = (expired_401, without_token d t)"
    using post_refresh_present [OF assms(1,3) _ u, of P env S] assms(2,4,5) by simp
  have dist: "distinct (map rt_token (refreshTokens d))"
    using assms(1) by (simp add: constraints_def)
  have rows: "refreshTokens (without_token d t) = remove1 r (refreshTokens d)"
    using filter_distinct_remove1 [OF dist assms(3)] assms(4) by (simp add: without_token_def)
  have gone: "r \<notin> set (refreshTokens (without_token d t))"
    using assms(4) by (simp add: without_token_def)
  have absent: "\<not> list_ex (\<lambda>x. rt_token x = t) (refreshTokens (run P env (without_token d t) evs))"
    using run_keeps_absent [OF without_token_no_match assms(6)] .
  have later: "post_refresh P env S' (run P env (without_token d t) evs) (Some t)
      = (invalid_401, run P env (without_token d t) evs)"
    by (rule post_refresh_absent [OF assms(2) absent])
  have revoke: "post_revoke (run P env (without_token d t) evs) (Some t)
      = (revoke_404, run P env (without_token d t) evs)"
    using post_revoke_cases [OF assms(2), of "run P env (without_token d t) evs"] absent by simp
  show ?thesis
    using first rows gone later revoke unfolding e1 e2 e3 by blast
qed

lemma constraints_sample_db: "constraints sample_db"
  by (simp add: constraints_def sample_db_def alice_def bob_def stale_row_def fresh_row_def
      bobs_todo_def)

lemma length_concat_hex2: "length (concat (map hex2 bytes)) = 2 * length bytes"
  by (induction bytes) (simp_all add: hex2_def)

lemma length_generateRefreshToken:
  "length (generateRefreshToken S) = 2 * min 32 (length (randomValues S))"
  by (simp add: generateRefreshToken_def length_concat_hex2 min_def)

lemma sample_events_fresh: "\<not> list_ex (reissues ''r0'') sample_events"
proof -
  have "length (generateRefreshToken sample_sys) = 64"
    by (simp add: length_generateRefreshToken sample_sys_def)
  then have "generateRefreshToken sample_sys \<noteq> ''r0''" by auto
  then show ?thesis by (simp add: sample_events_def reissues_def)
qed

theorem post_refresh_expired_witness:
  "constraints sample_db \<and> stale_row \<in> set (refreshTokens sample_db) \<and>
   rt_token stale_row = ''r0'' \<and> rt_expiresAt stale_row * 1000 < Date_now sample_sys \<and>
   post_refresh sample_packages sample_env sample_sys sample_db (Some ''r0'') =
     (\<lparr>data = ErrorBody ''Unauthorized'' ''Refresh token has expired'', status = 401\<rparr>,
      without_token sample_db ''r0'') \<and>
   refreshTokens (without_token sample_db ''r0'') = [fresh_row] \<and>
   post_refresh sample_packages sample_env sample_sys
       (run sample_packages sample_env (without_token sample_db ''r0'') sample_events) (Some ''r0'') =
     (\<lparr>data = ErrorBody ''Unauthorized'' ''Invalid refresh token'', status = 401\<rparr>,
      run sample_packages sample_env (without_token sample_db ''r0'') sample_events) \<and>
   post_revoke (run sample_packages sample_env (without_token sample_db ''r0'') sample_events)
       (Some ''r0'') =
     (\<lparr>data = ErrorBody ''Not Found'' ''Refresh token not found'', status = 404\<rparr>,
      run sample_packages sample_env (without_token sample_db ''r0'') sample_events)"
proof -
  have a: "''r0'' \<noteq> ([] :: string)" by simp
  have b: "stale_row \<in> set (refreshTokens sample_db)" by (simp add: sample_db_def)
  have c: "rt_token stale_row = ''r0''" by (simp add: stale_row_def)
  have e: "rt_expiresAt stale_row * 1000 < Date_now sample_sys"
    by (simp add: stale_row_def sample_sys_def)
  have f: "remove1 stale_row (refreshTokens sample_db) = [fresh_row]"
    by (simp add: sample_db_def)
  show ?thesis
    using post_refresh_expired [OF constraints_sample_db a b c e sample_events_fresh,
        of sample_packages sample_env sample_sys]
      constraints_sample_db b c e f
    by simp
qed



section \<open>Login and registration\<close>

lemma falsy_value_simps [simp]:
  "falsy_value None"
  "falsy_value (Some JNull)"
  "falsy_value (Some (JBool b)) \<longleftrightarrow> \<not> b"
  "falsy_value (Some (JNum x)) \<longleftrightarrow> x = 0"
  "falsy_value (Some (JStr s)) \<longleftrightarrow> s = []"
  "\<not> falsy_value (Some (JArr xs))"
  "\<not> falsy_value (Some (JObj kvs))"
  by (simp_all add: falsy_value_def Boolean_def)

lemma destructure_simps [simp]:
  "destructure JNull = Inl TypeError"
  "destructure (JBool b) = Inr (JBool b)"
  "destructure (JNum x) = Inr (JNum x)"
  "destructure (JStr s) = Inr (JStr s)"
  "destructure (JArr xs) = Inr (JArr xs)"
  "destructure (JObj kvs) = Inr (JObj kvs)"
  by (simp_all add: destructure_def)

lemma destructure_not_null: "body \<noteq> JNull \<Longrightarrow> destructure body = Inr body"
  by (cases body) simp_all

lemma property_credentials [simp]:
  "property (credentials email password) ''email'' = Some (JStr email)"
  "property (credentials email password) ''password'' = Some (JStr password)"
  "credentials email password \<noteq> JNull"
  by (simp_all add: property_def credentials_def)

lemma includes_string_char: "includes_string t [c] \<longleftrightarrow> c \<in> set t"
  by (induction t) auto

text \<open>
  What \<^verbatim>\<open>POST /token\<close> does with a body that is not \<^verbatim>\<open>null\<close> and holds
  a string email and a string password, neither empty.
\<close>

lemma post_token_strings:
  assumes "body \<noteq> JNull" "property body ''email'' = Some (JStr email)"
    "property body ''password'' = Some (JStr password)" "email \<noteq> []" "password \<noteq> []"
  shows "post_token P env S d (Inr body) = catch_500
     (case select_user_by_email d email of
        None \<Rightarrow>
          (Inr (formatResponse (ErrorBody ''Unauthorized'' ''Invalid email or password'') 401), d)
      | Some u \<Rightarrow>
          if \<not> bcrypt_compare P password (user_password u) then
            (Inr (formatResponse (ErrorBody ''Unauthorized'' ''Invalid email or password'') 401), d)
          else
            await d (insert_refreshToken d S (generateRefreshToken S) (user_id u)
                       (Date_now S + JWT_REFRESH_EXPIRY env * 1000))
              (\<lambda>d'. (Inr (formatResponse
                         (Tokens (generateAccessToken P (user_id u) (user_email u)
                                    (JWT_SECRET env) (JWT_ACCESS_EXPIRY env) (Date_now S))
                            (generateRefreshToken S) (JWT_ACCESS_EXPIRY env)) 200), d')))"
  using assms
  by (simp add: post_token_def destructure_not_null bind_value_def verifyPassword_def Let_def
      split: option.splits)

text \<open>
  Of two login requests that both hold a string email and a string password, one whose
  email has no account and one whose email has an account that the password does not
  match, both are answered 401 with the one body \<^verbatim>\<open>Invalid email or password\<close>,
  and neither changes the database.
\<close>

lemma post_token_failures_equal:
  assumes "email1 \<noteq> []" "password1 \<noteq> []" "select_user_by_email d email1 = None"
    and "email2 \<noteq> []" "password2 \<noteq> []" "select_user_by_email d email2 = Some u"
    and "\<not> bcrypt_compare P password2 (user_password u)"
  shows "post_token P env S1 d (Inr (credentials email1 password1)) =
           (\<lparr>data = ErrorBody ''Unauthorized'' ''Invalid email or password'', status = 401\<rparr>, d) \<and>
         post_token P env S2 d (Inr (credentials email2 password2)) =
           (\<lparr>data = ErrorBody ''Unauthorized'' ''Invalid email or password'', status = 401\<rparr>, d)"
  using assms
  by (simp add: post_token_strings catch_500_def formatResponse_def)

text \<open>
  C5. A password that is a number, sent with the email of an account, reaches
  \<^verbatim>\<open>bcrypt.compare\<close>, which rejects it: the answer is 500. The same password
  sent with an email that has no account is answered 401. The two failures differ,
  whatever the packages do and whatever the clock reads.
\<close>

theorem post_token_number_password:
  "select_user_by_email sample_db ''a@b.com'' = Some alice \<and>
   select_user_by_email sample_db ''nobody@b.com'' = None \<and>
   post_token P env S sample_db
       (Inr (JObj [(''email'', JStr ''a@b.com''), (''password'', JNum 12345678)])) =
     (\<lparr>data = InternalServerError IllegalArguments, status = 500\<rparr>, sample_db) \<and>
   post_token P env S sample_db
       (Inr (JObj [(''email'', JStr ''nobody@b.com''), (''password'', JNum 12345678)])) =
     (\<lparr>data = ErrorBody ''Unauthorized'' ''Invalid email or password'', status = 401\<rparr>,
      sample_db)"
proof -
  have a: "select_user_by_email sample_db ''a@b.com'' = Some alice"
    by (simp add: select_user_by_email_def sample_db_def alice_def bob_def)
  have n: "select_user_by_email sample_db ''nobody@b.com'' = None"
    by (simp add: select_user_by_email_def sample_db_def alice_def bob_def)
  have x: "post_token P env S sample_db
       (Inr (JObj [(''email'', JStr ''a@b.com''), (''password'', JNum 12345678)])) =
     (\<lparr>data = InternalServerError IllegalArguments, status = 500\<rparr>, sample_db)"
    using a
    by (simp add: post_token_def property_def bind_value_def verifyPassword_def catch_500_def
        formatResponse_def)
  have y: "post_token P env S sample_db
       (Inr (JObj [(''email'', JStr ''nobody@b.com''), (''password'', JNum 12345678)])) =
     (\<lparr>data = ErrorBody ''Unauthorized'' ''Invalid email or password'', status = 401\<rparr>,
      sample_db)"
    using n
    by (simp add: post_token_def property_def bind_value_def catch_500_def formatResponse_def)
  show ?thesis using a n x y by simp
qed

text \<open>
  What \<^verbatim>\<open>POST /register\<close> does with a body that is not \<^verbatim>\<open>null\<close> and in
  which each of the three fields is a string or absent: it answers 400 when one is
  absent or empty, when the email has no \<^verbatim>\<open>@\<close>, or when the password has fewer
  than 8 characters, and 409 when these checks pass and the email has an account; in
  each case the database stays as it was.
\<close>

lemma post_register_strings:
  assumes "body \<noteq> JNull"
    "property body ''email'' = map_option JStr email"
    "property body ''password'' = map_option JStr password"
    "property body ''name'' = map_option JStr name"
  shows "((falsy email \<or> falsy password \<or> falsy name \<or>
       (\<exists>e. email = Some e \<and> CHR ''@'' \<notin> set e) \<or>
       (\<exists>p. password = Some p \<and> length p < 8))
      \<longrightarrow> (\<exists>message. post_register P S d (Inr body)
                = (\<lparr>data = ErrorBody ''Bad Request'' message, status = 400\<rparr>, d))) \<and>
   (\<not> (falsy email \<or> falsy password \<or> falsy name \<or>
       (\<exists>e. email = Some e \<and> CHR ''@'' \<notin> set e) \<or>
       (\<exists>p. password = Some p \<and> length p < 8)) \<and>
    list_ex (\<lambda>u. Some (user_email u) = email) (users d)
      \<longrightarrow> post_register P S d (Inr body)
            = (\<lparr>data = ErrorBody ''Conflict'' ''User with this email already exists'',
                status = 409\<rparr>, d))"
proof -
  have find: "list_ex (\<lambda>u. user_email u = e) (users d) \<Longrightarrow>
      \<exists>x. select_user_by_email d e = Some x" for e
    using filter_first [of "\<lambda>u. user_email u = e" "users d"]
    by (auto simp: select_user_by_email_def)
  have fv: "falsy_value (map_option JStr x) \<longleftrightarrow> falsy x" for x
    by (cases x) (simp_all add: falsy_def)
  note defs = post_register_def destructure_not_null [OF assms(1)] assms(2-4) fv Let_def
    catch_500_def formatResponse_def
  show ?thesis
  proof (cases "falsy email \<or> falsy password \<or> falsy name")
    case True
    then have "post_register P S d (Inr body) =
        (\<lparr>data = ErrorBody ''Bad Request'' ''Missing required fields: email, password, name'',
          status = 400\<rparr>, d)"
      by (simp add: defs)
    then show ?thesis using True by auto
  next
    case False
    then obtain e p n where v: "email = Some e" "password = Some p" "name = Some n"
      "e \<noteq> []" "p \<noteq> []" "n \<noteq> []"
      by (cases email; cases password; cases name) (auto simp: falsy_def)
    show ?thesis
    proof (cases "CHR ''@'' \<notin> set e")
      case True
      with v show ?thesis
        by (auto simp: defs call_includes_def includes_string_char falsy_def)
    next
      case False
      note at = this
      show ?thesis
      proof (cases "length p < 8")
        case True
        with v at show ?thesis
          by (auto simp: defs call_includes_def includes_string_char falsy_def length_of_def
              less_than_def)
      next
        case False
        show ?thesis
        proof (cases "list_ex (\<lambda>u. user_email u = e) (users d)")
          case True
          from find [OF this] obtain x where "select_user_by_email d e = Some x" by blast
          with v at False True show ?thesis
            by (simp add: defs call_includes_def includes_string_char falsy_def length_of_def
                less_than_def bind_value_def)
        next
          case no: False
          with v at False show ?thesis by (simp add: falsy_def)
        qed
      qed
    qed
  qed
qed

text \<open>
  C7. An email that is a number has no \<^verbatim>\<open>@\<close>, and the request is answered 500,
  not 400: \<^verbatim>\<open>email.includes\<close> is not a function, and the call throws. So is a
  body that is \<^verbatim>\<open>null\<close> or is not JSON text, in which all three fields are
  missing, and a password that is a number, which passes the check of its length and is
  rejected by \<^verbatim>\<open>bcrypt.hash\<close>. In each case the database stays as it was.
\<close>

theorem post_register_number_email:
  "post_register P S d
       (Inr (JObj [(''email'', JNum 123), (''password'', JStr ''password123''),
                   (''name'', JStr ''A'')])) =
     (\<lparr>data = InternalServerError TypeError, status = 500\<rparr>, d) \<and>
   post_register P S d (Inr JNull) = (\<lparr>data = InternalServerError TypeError, status = 500\<rparr>, d) \<and>
   post_register P S d (Inl SyntaxError) =
     (\<lparr>data = InternalServerError SyntaxError, status = 500\<rparr>, d) \<and>
   post_register P S sample_db
       (Inr (JObj [(''email'', JStr ''new@b.com''), (''password'', JNum 1234567),
                   (''name'', JStr ''A'')])) =
     (\<lparr>data = InternalServerError IllegalArguments, status = 500\<rparr>, sample_db)"
proof -
  have n: "select_user_by_email sample_db ''new@b.com'' = None"
    by (simp add: select_user_by_email_def sample_db_def alice_def bob_def)
  have a: "post_register P S d
       (Inr (JObj [(''email'', JNum 123), (''password'', JStr ''password123''),
                   (''name'', JStr ''A'')])) =
     (\<lparr>data = InternalServerError TypeError, status = 500\<rparr>, d)"
    by (simp add: post_register_def property_def call_includes_def catch_500_def
        formatResponse_def)
  have b: "post_register P S d (Inr JNull) =
      (\<lparr>data = InternalServerError TypeError, status = 500\<rparr>, d)"
    by (simp add: post_register_def catch_500_def formatResponse_def)
  have c: "post_register P S d (Inl SyntaxError) =
     (\<lparr>data = InternalServerError SyntaxError, status = 500\<rparr>, d)"
    by (simp add: post_register_def catch_500_def formatResponse_def)
  have e: "post_register P S sample_db
       (Inr (JObj [(''email'', JStr ''new@b.com''), (''password'', JNum 1234567),
                   (''name'', JStr ''A'')])) =
     (\<lparr>data = InternalServerError IllegalArguments, status = 500\<rparr>, sample_db)"
    using n
    by (simp add: post_register_def property_def call_includes_def length_of_def less_than_def
        bind_value_def hashPassword_def catch_500_def formatResponse_def)
  show ?thesis by (rule conjI [OF a conjI [OF b conjI [OF c e]]])
qed

section \<open>Todos\<close>

lemma select_todo_None:
  "(\<forall>t\<in>set (todos d). todo_id t = todoId \<longrightarrow> todo_userId t \<noteq> userId)
     \<Longrightarrow> select_todo d todoId userId = None"
  by (auto simp: select_todo_def find_None_iff)

lemma select_todo_Some:
  "select_todo d todoId userId = Some t \<Longrightarrow>
     t \<in> set (todos d) \<and> todo_id t = todoId \<and> todo_userId t = userId"
  by (auto simp: select_todo_def find_Some_iff)

lemma get_todo_miss:
  "isValidUUID todoId \<Longrightarrow> select_todo d todoId userId = None \<Longrightarrow>
     get_todo d userId todoId = (todo_404, d)"
  by (simp add: get_todo_def catch_500_def todo_404_def)

lemma put_todo_miss:
  "isValidUUID todoId \<Longrightarrow> select_todo d todoId userId = None \<Longrightarrow> body \<noteq> JNull \<Longrightarrow>
     put_todo P S d userId todoId (Inr body) = (todo_404, d)"
  by (simp add: put_todo_def catch_500_def todo_404_def destructure_not_null)

lemma put_todo_unreadable:
  "isValidUUID todoId \<Longrightarrow>
     put_todo P S d userId todoId (Inl error) =
       (\<lparr>data = InternalServerError error, status = 500\<rparr>, d) \<and>
     put_todo P S d userId todoId (Inr JNull) =
       (\<lparr>data = InternalServerError TypeError, status = 500\<rparr>, d)"
  by (simp add: put_todo_def catch_500_def formatResponse_def)

lemma delete_todo_miss:
  "isValidUUID todoId \<Longrightarrow> select_todo d todoId userId = None \<Longrightarrow>
     delete_todo d userId todoId = (todo_404, d)"
  by (simp add: delete_todo_def catch_500_def todo_404_def)

lemma get_todo_hit:
  "isValidUUID todoId \<Longrightarrow> select_todo d todoId userId = Some t \<Longrightarrow>
     get_todo d userId todoId = (formatResponse (TodoBody t) 200, d)"
  by (simp add: get_todo_def catch_500_def)

lemma isValidUUID_sample1: "isValidUUID ''11111111-1111-4111-8111-111111111111''"
  by (simp add: isValidUUID_def hex_digit_def eval_nat_numeral)

lemma isValidUUID_sample2: "isValidUUID ''99999999-9999-4999-8999-999999999999''"
  by (simp add: isValidUUID_def hex_digit_def eval_nat_numeral)

lemma sample_guard:
  "requireAuth sample_packages sample_env (Date_now sample_sys) (Some ''Bearer tok'')
     = Next ''u1'' ''a@b.com''"
  by (simp add: requireAuth_cases extractBearerToken_split verifyAccessToken_cases
      sample_packages_def sample_env_def sample_sys_def alice_payload_def expired_def
      not_before_def numeric_date_def)

text \<open>
  An authenticated \<^verbatim>\<open>PUT\<close> on the todo of another account, with a well-formed
  id and a body that is not JSON text, is answered 500, not 404.
\<close>

theorem put_todo_unparsable_body:
  "requireAuth sample_packages sample_env (Date_now sample_sys) (Some ''Bearer tok'')
     = Next ''u1'' ''a@b.com'' \<and>
   isValidUUID ''11111111-1111-4111-8111-111111111111'' \<and>
   todos sample_db = [bobs_todo] \<and>
   todo_id bobs_todo = ''11111111-1111-4111-8111-111111111111'' \<and>
   todo_userId bobs_todo = ''u2'' \<and>
   app sample_packages sample_env sample_sys sample_db
       (PutTodo (Some ''Bearer tok'') ''11111111-1111-4111-8111-111111111111'' (Inl SyntaxError))
     = (\<lparr>data = InternalServerError SyntaxError, status = 500\<rparr>, sample_db) \<and>
   app sample_packages sample_env sample_sys sample_db
       (PutTodo (Some ''Bearer tok'') ''99999999-9999-4999-8999-999999999999'' (Inr JNull))
     = (\<lparr>data = InternalServerError TypeError, status = 500\<rparr>, sample_db)"
  using sample_guard isValidUUID_sample1
    put_todo_unreadable [OF isValidUUID_sample1, of sample_packages sample_sys sample_db "''u1''"
      SyntaxError]
    put_todo_unreadable [OF isValidUUID_sample2, of sample_packages sample_sys sample_db "''u1''"
      SyntaxError]
  by (simp add: guarded_def) (simp add: sample_db_def bobs_todo_def)

text \<open>
  C6, as the code has it. For a request that passed the guard as \<open>userId\<close>, with a
  well-formed id: \<^verbatim>\<open>GET\<close>, \<^verbatim>\<open>PUT\<close> and \<^verbatim>\<open>DELETE\<close> on
  \<^verbatim>\<open>/todos/:id\<close> look the todo up by its id and by \<open>userId\<close> together.
  When no todo has both (there is none with that id, or it belongs to another account),
  \<^verbatim>\<open>GET\<close>, \<^verbatim>\<open>DELETE\<close>, and \<^verbatim>\<open>PUT\<close> with a body that is JSON other
  than \<^verbatim>\<open>null\<close>, each answer the same 404 \<^verbatim>\<open>Todo not found\<close> and leave the
  database as it was. A \<^verbatim>\<open>PUT\<close> whose body is not JSON, or is \<^verbatim>\<open>null\<close>,
  is answered 500 before the lookup, whatever todos there are. What \<^verbatim>\<open>GET\<close>
  returns as a todo is a stored row with that id owned by \<open>userId\<close>.
\<close>

theorem todo_scoped_to_owner:
  assumes "requireAuth P env (Date_now S) auth = Next userId userEmail" "isValidUUID todoId"
  shows "((\<forall>t\<in>set (todos d). todo_id t = todoId \<longrightarrow> todo_userId t \<noteq> userId) \<longrightarrow>
            app P env S d (GetTodo auth todoId) =
              (\<lparr>data = ErrorBody ''Not Found'' ''Todo not found'', status = 404\<rparr>, d) \<and>
            app P env S d (DeleteTodo auth todoId) =
              (\<lparr>data = ErrorBody ''Not Found'' ''Todo not found'', status = 404\<rparr>, d) \<and>
            (body \<noteq> JNull \<longrightarrow>
               app P env S d (PutTodo auth todoId (Inr body)) =
                 (\<lparr>data = ErrorBody ''Not Found'' ''Todo not found'', status = 404\<rparr>, d))) \<and>
         app P env S d (PutTodo auth todoId (Inl error)) =
           (\<lparr>data = InternalServerError error, status = 500\<rparr>, d) \<and>
         app P env S d (PutTodo auth todoId (Inr JNull)) =
           (\<lparr>data = InternalServerError TypeError, status = 500\<rparr>, d) \<and>
         (\<forall>t. data (fst (app P env S d (GetTodo auth todoId))) = TodoBody t \<longrightarrow>
            t \<in> set (todos d) \<and> todo_id t = todoId \<and> todo_userId t = userId)"
proof -
  have g: "guarded P env S auth d handler = handler userId" for handler
    using assms(1) by (simp add: guarded_def)
  have nf: "todo_404 = \<lparr>data = ErrorBody ''Not Found'' ''Todo not found'', status = 404\<rparr>"
    by (simp add: todo_404_def formatResponse_def)
  have miss: "(\<forall>t\<in>set (todos d). todo_id t = todoId \<longrightarrow> todo_userId t \<noteq> userId) \<longrightarrow>
            app P env S d (GetTodo auth todoId) = (todo_404, d) \<and>
            app P env S d (DeleteTodo auth todoId) = (todo_404, d) \<and>
            (body \<noteq> JNull \<longrightarrow> app P env S d (PutTodo auth todoId (Inr body)) = (todo_404, d))"
  proof
    assume "\<forall>t\<in>set (todos d). todo_id t = todoId \<longrightarrow> todo_userId t \<noteq> userId"
    then have n: "select_todo d todoId userId = None" by (rule select_todo_None)
    show "app P env S d (GetTodo auth todoId) = (todo_404, d) \<and>
            app P env S d (DeleteTodo auth todoId) = (todo_404, d) \<and>
            (body \<noteq> JNull \<longrightarrow> app P env S d (PutTodo auth todoId (Inr body)) = (todo_404, d))"
      using assms(2) n
      by (simp add: g get_todo_miss put_todo_miss delete_todo_miss)
  qed
  have unreadable: "app P env S d (PutTodo auth todoId (Inl error)) =
           (\<lparr>data = InternalServerError error, status = 500\<rparr>, d)"
    "app P env S d (PutTodo auth todoId (Inr JNull)) =
           (\<lparr>data = InternalServerError TypeError, status = 500\<rparr>, d)"
    using put_todo_unreadable [OF assms(2), of P S d userId error] by (simp_all add: g)
  have hit: "\<forall>t. data (fst (app P env S d (GetTodo auth todoId))) = TodoBody t \<longrightarrow>
            t \<in> set (todos d) \<and> todo_id t = todoId \<and> todo_userId t = userId"
  proof (cases "select_todo d todoId userId")
    case None
    then show ?thesis
      using assms(2) by (simp add: g get_todo_miss todo_404_def formatResponse_def)
  next
    case (Some x)
    then show ?thesis
      using assms(2) select_todo_Some [OF Some]
      by (simp add: g get_todo_hit formatResponse_def)
  qed
  show ?thesis
    using miss unreadable hit unfolding nf by blast
qed

theorem todo_scoped_to_owner_witness:
  "requireAuth sample_packages sample_env (Date_now sample_sys) (Some ''Bearer tok'')
     = Next ''u1'' ''a@b.com'' \<and>
   bobs_todo \<in> set (todos sample_db) \<and> todo_userId bobs_todo = ''u2'' \<and>
   app sample_packages sample_env sample_sys sample_db
       (GetTodo (Some ''Bearer tok'') ''11111111-1111-4111-8111-111111111111'') =
     (\<lparr>data = ErrorBody ''Not Found'' ''Todo not found'', status = 404\<rparr>, sample_db) \<and>
   app sample_packages sample_env sample_sys sample_db
       (GetTodo (Some ''Bearer tok'') ''99999999-9999-4999-8999-999999999999'') =
     (\<lparr>data = ErrorBody ''Not Found'' ''Todo not found'', status = 404\<rparr>, sample_db) \<and>
   app sample_packages sample_env sample_sys sample_db
       (PutTodo (Some ''Bearer tok'') ''11111111-1111-4111-8111-111111111111''
          (Inr (JObj [(''title'', JStr ''Mine''), (''completed'', JBool True)]))) =
     (\<lparr>data = ErrorBody ''Not Found'' ''Todo not found'', status = 404\<rparr>, sample_db) \<and>
   app sample_packages sample_env sample_sys sample_db
       (DeleteTodo (Some ''Bearer tok'') ''11111111-1111-4111-8111-111111111111'') =
     (\<lparr>data = ErrorBody ''Not Found'' ''Todo not found'', status = 404\<rparr>, sample_db)"
proof -
  have o: "\<forall>t\<in>set (todos sample_db). todo_id t = i \<longrightarrow> todo_userId t \<noteq> ''u1''" for i
    by (simp add: sample_db_def bobs_todo_def)
  have b: "bobs_todo \<in> set (todos sample_db)" "todo_userId bobs_todo = ''u2''"
    by (simp_all add: sample_db_def bobs_todo_def)
  show ?thesis
    using todo_scoped_to_owner [OF sample_guard isValidUUID_sample1, of sample_db
        "JObj [(''title'', JStr ''Mine''), (''completed'', JBool True)]"]
      todo_scoped_to_owner [OF sample_guard isValidUUID_sample2, of sample_db JNull]
      sample_guard o b
    by simp
qed

section \<open>The lifetime of refresh tokens\<close>

lemma post_token_success_body:
  assumes "body \<noteq> JNull" "property body ''email'' = Some (JStr email)"
    "property body ''password'' = Some (JStr password)"
    "select_user_by_email d email = Some u" "email \<noteq> []" "password \<noteq> []"
    "bcrypt_compare P password (user_password u)"
    "\<not> list_ex (\<lambda>r. rt_token r = generateRefreshToken S) (refreshTokens d)"
    "valid_time (Date_now S + JWT_REFRESH_EXPIRY env * 1000)"
  shows "post_token P env S d (Inr body) =
     (formatResponse
        (Tokens (generateAccessToken P (user_id u) (user_email u) (JWT_SECRET env)
                   (JWT_ACCESS_EXPIRY env) (Date_now S))
           (generateRefreshToken S) (JWT_ACCESS_EXPIRY env)) 200,
      d\<lparr>refreshTokens := refreshTokens d @ [login_row env S d (user_id u)],
        refreshTokens_seq := Suc (refreshTokens_seq d)\<rparr>)"
proof -
  have "u \<in> set (users d)"
    using assms(4) by (auto simp: select_user_by_email_def find_Some_iff)
  then have "list_ex (\<lambda>x. user_id x = user_id u) (users d)"
    by (auto simp: list_ex_iff)
  then show ?thesis
    using assms(4-9)
    by (simp add: post_token_strings [OF assms(1-3)] catch_500_def insert_refreshToken_def
        login_row_def)
qed

lemma post_token_success:
  assumes "select_user_by_email d email = Some u" "email \<noteq> []" "password \<noteq> []"
    "bcrypt_compare P password (user_password u)"
    "\<not> list_ex (\<lambda>r. rt_token r = generateRefreshToken S) (refreshTokens d)"
    "valid_time (Date_now S + JWT_REFRESH_EXPIRY env * 1000)"
  shows "post_token P env S d (Inr (credentials email password)) =
     (formatResponse
        (Tokens (generateAccessToken P (user_id u) (user_email u) (JWT_SECRET env)
                   (JWT_ACCESS_EXPIRY env) (Date_now S))
           (generateRefreshToken S) (JWT_ACCESS_EXPIRY env)) 200,
      d\<lparr>refreshTokens := refreshTokens d @ [login_row env S d (user_id u)],
        refreshTokens_seq := Suc (refreshTokens_seq d)\<rparr>)"
  by (rule post_token_success_body [OF _ _ _ assms]) simp_all









section \<open>A token string drawn again\<close>

text \<open>
  After an expired row was deleted, a login whose random bytes give the same token
  string stores that string again, and a refresh with it is answered 200.
\<close>

lemma recycled_first:
  "post_refresh sample_packages sample_env sample_sys recycled_db (Some (rt_token recycled_row))
     = (expired_401, recycled_db\<lparr>refreshTokens := []\<rparr>)"
proof -
  have c: "constraints recycled_db"
    by (simp add: constraints_def recycled_db_def recycled_row_def alice_def bob_def)
  have m: "recycled_row \<in> set (refreshTokens recycled_db)" by (simp add: recycled_db_def)
  have "length (rt_token recycled_row) = 64"
    by (simp add: recycled_row_def length_generateRefreshToken sample_sys_def)
  then have n: "rt_token recycled_row \<noteq> []" by auto
  have u: "select_user_by_id recycled_db (rt_userId recycled_row) = Some alice"
    by (simp add: select_user_by_id_def recycled_db_def recycled_row_def alice_def)
  have e: "rt_expiresAt recycled_row * 1000 < Date_now sample_sys"
    by (simp add: recycled_row_def sample_sys_def)
  have w: "without_token recycled_db (rt_token recycled_row) = recycled_db\<lparr>refreshTokens := []\<rparr>"
    by (simp add: without_token_def recycled_db_def)
  show ?thesis
    using post_refresh_present [OF c m n u, of sample_packages sample_env sample_sys] e w by simp
qed

lemma recycled_login:
  "post_token sample_packages sample_env sample_sys (recycled_db\<lparr>refreshTokens := []\<rparr>)
       (Inr (credentials ''a@b.com'' ''password123''))
     = (formatResponse (Tokens ''tok'' (generateRefreshToken sample_sys) 3600) 200,
        recycled_db\<lparr>refreshTokens :=
            [\<lparr>rt_id = 2, rt_token = generateRefreshToken sample_sys, rt_userId = ''u1'',
              rt_expiresAt = 1702592000, rt_createdAt = 1700000000\<rparr>],
          refreshTokens_seq := 2\<rparr>)"
proof -
  let ?d = "recycled_db\<lparr>refreshTokens := []\<rparr>"
  have s: "select_user_by_email ?d ''a@b.com'' = Some alice"
    by (simp add: select_user_by_email_def recycled_db_def alice_def bob_def)
  have c: "bcrypt_compare sample_packages ''password123'' (user_password alice)"
    by (simp add: sample_packages_def alice_def)
  have f: "\<not> list_ex (\<lambda>r. rt_token r = generateRefreshToken sample_sys) (refreshTokens ?d)"
    by simp
  have v: "valid_time (Date_now sample_sys + JWT_REFRESH_EXPIRY sample_env * 1000)"
    by (simp add: valid_time_def sample_sys_def sample_env_def)
  have "post_token sample_packages sample_env sample_sys ?d (Inr (credentials ''a@b.com'' ''password123''))
     = (formatResponse
        (Tokens (generateAccessToken sample_packages (user_id alice) (user_email alice)
                   (JWT_SECRET sample_env) (JWT_ACCESS_EXPIRY sample_env) (Date_now sample_sys))
           (generateRefreshToken sample_sys) (JWT_ACCESS_EXPIRY sample_env)) 200,
        ?d\<lparr>refreshTokens := refreshTokens ?d @ [login_row sample_env sample_sys ?d (user_id alice)],
           refreshTokens_seq := Suc (refreshTokens_seq ?d)\<rparr>)"
    by (rule post_token_success [OF s _ _ c f v]) simp_all
  then show ?thesis
    by (simp add: generateAccessToken_def sample_packages_def sample_env_def alice_def
        login_row_def recycled_db_def sample_sys_def)
qed

theorem post_refresh_reissued:
  "constraints recycled_db \<and> recycled_row \<in> set (refreshTokens recycled_db) \<and>
   rt_token recycled_row \<noteq> [] \<and>
   rt_expiresAt recycled_row * 1000 < Date_now sample_sys \<and>
   fst (post_refresh sample_packages sample_env sample_sys recycled_db (Some (rt_token recycled_row)))
     = \<lparr>data = ErrorBody ''Unauthorized'' ''Refresh token has expired'', status = 401\<rparr> \<and>
   fst (post_refresh sample_packages sample_env sample_sys
          (run sample_packages sample_env recycled_db
             [(sample_sys, PostRefresh (Some (rt_token recycled_row))),
              (sample_sys, PostToken (Inr (credentials ''a@b.com'' ''password123'')))])
          (Some (rt_token recycled_row)))
     = \<lparr>data = Refreshed ''tok'' 3600, status = 200\<rparr> \<and>
   fst (post_revoke
          (run sample_packages sample_env recycled_db
             [(sample_sys, PostRefresh (Some (rt_token recycled_row))),
              (sample_sys, PostToken (Inr (credentials ''a@b.com'' ''password123'')))])
          (Some (rt_token recycled_row)))
     = \<lparr>data = Success ''Token revoked successfully'', status = 200\<rparr>"
proof -
  let ?t = "rt_token recycled_row"
  let ?d = "recycled_db\<lparr>refreshTokens :=
            [\<lparr>rt_id = 2, rt_token = generateRefreshToken sample_sys, rt_userId = ''u1'',
              rt_expiresAt = 1702592000, rt_createdAt = 1700000000\<rparr>],
          refreshTokens_seq := 2\<rparr>"
  let ?r = "\<lparr>rt_id = 2, rt_token = generateRefreshToken sample_sys, rt_userId = ''u1'',
              rt_expiresAt = 1702592000, rt_createdAt = 1700000000\<rparr>"
  have c: "constraints recycled_db"
    by (simp add: constraints_def recycled_db_def recycled_row_def alice_def bob_def)
  have m: "recycled_row \<in> set (refreshTokens recycled_db)" by (simp add: recycled_db_def)
  have "length ?t = 64"
    by (simp add: recycled_row_def length_generateRefreshToken sample_sys_def)
  then have n: "?t \<noteq> []" by auto
  have e: "rt_expiresAt recycled_row * 1000 < Date_now sample_sys"
    by (simp add: recycled_row_def sample_sys_def)
  have t: "?t = generateRefreshToken sample_sys" by (simp add: recycled_row_def)
  have r: "run sample_packages sample_env recycled_db
             [(sample_sys, PostRefresh (Some ?t)),
              (sample_sys, PostToken (Inr (credentials ''a@b.com'' ''password123'')))] = ?d"
    by (simp add: recycled_first recycled_login)
  have c2: "constraints ?d"
    by (simp add: constraints_def recycled_db_def alice_def bob_def)
  have m2: "?r \<in> set (refreshTokens ?d)" by simp
  have u2: "select_user_by_id ?d (rt_userId ?r) = Some alice"
    by (simp add: select_user_by_id_def recycled_db_def alice_def)
  have n2: "rt_token ?r \<noteq> []" using n t by simp
  have again: "post_refresh sample_packages sample_env sample_sys ?d (Some ?t)
      = (formatResponse (Refreshed ''tok'' 3600) 200, ?d)"
    using post_refresh_present [OF c2 m2 n2 u2, of sample_packages sample_env sample_sys] t
    by (simp add: sample_sys_def generateAccessToken_def sample_packages_def sample_env_def)
  have revoke: "fst (post_revoke ?d (Some ?t)) = revoked_200"
    using post_revoke_cases [OF n, of ?d] t by simp
  show ?thesis
    using c m n e recycled_first r again revoke
    by (simp add: expired_401_def revoked_200_def formatResponse_def)
qed

section \<open>The profile\<close>

lemma find_map_update:
  assumes "\<And>u. user_id (f u) = user_id u"
  shows "List.find (\<lambda>u. user_id u = i) (map (\<lambda>u. if user_id u = i then f u else u) xs)
           = map_option f (List.find (\<lambda>u. user_id u = i) xs)"
  using assms by (induction xs) simp_all

lemma update_user_eq:
  "update_user d userId (Date_now S div 1000) name bio preferences =
     (map (\<lambda>u. updated_user S u name bio preferences) (filter (\<lambda>u. user_id u = userId) (users d)),
      d\<lparr>users := map (\<lambda>u. if user_id u = userId then updated_user S u name bio preferences else u)
                     (users d)\<rparr>)"
  by (simp add: update_user_def updated_user_def Let_def)

lemma user_id_updated_user [simp]: "user_id (updated_user S u name bio preferences) = user_id u"
  by (simp add: updated_user_def)

lemma update_user_result:
  assumes "select_user_by_id d userId = Some u"
  shows "\<exists>rest. fst (update_user d userId (Date_now S div 1000) name bio preferences)
            = updated_user S u name bio preferences # rest"
    and "select_user_by_id (snd (update_user d userId (Date_now S div 1000) name bio preferences)) userId
            = Some (updated_user S u name bio preferences)"
    and "refreshTokens (snd (update_user d userId (Date_now S div 1000) name bio preferences))
            = refreshTokens d"
    and "todos (snd (update_user d userId (Date_now S div 1000) name bio preferences)) = todos d"
proof -
  have "list_ex (\<lambda>u. user_id u = userId) (users d)"
    using assms by (auto simp: select_user_by_id_def find_Some_iff list_ex_iff)
  from filter_first [OF this] obtain x rest where
    "filter (\<lambda>u. user_id u = userId) (users d) = x # rest"
    "List.find (\<lambda>u. user_id u = userId) (users d) = Some x"
    by blast
  then have f: "filter (\<lambda>u. user_id u = userId) (users d) = u # rest"
    using assms by (simp add: select_user_by_id_def)
  show "\<exists>rest. fst (update_user d userId (Date_now S div 1000) name bio preferences)
            = updated_user S u name bio preferences # rest"
    using f by (simp add: update_user_eq)
  have "List.find (\<lambda>u. user_id u = userId)
          (map (\<lambda>x. if user_id x = userId then updated_user S x name bio preferences else x) (users d))
        = map_option (\<lambda>x. updated_user S x name bio preferences)
            (List.find (\<lambda>u. user_id u = userId) (users d))"
    by (rule find_map_update) simp
  then show "select_user_by_id (snd (update_user d userId (Date_now S div 1000) name bio preferences)) userId
            = Some (updated_user S u name bio preferences)"
    using assms by (simp add: select_user_by_id_def update_user_eq)
  show "refreshTokens (snd (update_user d userId (Date_now S div 1000) name bio preferences))
            = refreshTokens d"
    "todos (snd (update_user d userId (Date_now S div 1000) name bio preferences)) = todos d"
    by (simp_all add: update_user_eq)
qed

lemma put_profile_rejected:
  "typeof v \<noteq> ''object'' \<Longrightarrow>
     put_profile P S d userId name bio (Some v) =
       (\<lparr>data = ErrorBody ''Bad Request'' ''preferences must be an object'', status = 400\<rparr>, d)"
  by (simp add: put_profile_def catch_500_def formatResponse_def)

lemma put_profile_not_rejected:
  assumes "preferences = None \<or> typeof (the preferences) = ''object''"
  shows "status (fst (put_profile P S d userId name bio preferences)) \<noteq> 400"
proof -
  obtain result d' where r: "update_user d userId (Date_now S div 1000) name bio
      (map_option (JSON_stringify P) preferences) = (result, d')"
    by (cases "update_user d userId (Date_now S div 1000) name bio
      (map_option (JSON_stringify P) preferences)")
  have c: "\<not> (preferences \<noteq> None \<and> typeof (the preferences) \<noteq> ''object'')"
    using assms by auto
  show ?thesis
  proof (cases result)
    case Nil
    then show ?thesis
      using r c by (simp add: put_profile_def catch_500_def formatResponse_def)
  next
    case (Cons u rest)
    then show ?thesis
      using r c
      by (cases "JSON_parse P (user_preferences u)")
         (simp_all add: put_profile_def catch_500_def formatResponse_def)
  qed
qed

lemma put_profile_accepted:
  assumes "select_user_by_id d userId = Some u" "typeof v = ''object''"
  shows "put_profile P S d userId name bio (Some v) =
     (case JSON_parse P (JSON_stringify P v) of
        Inl error \<Rightarrow> \<lparr>data = InternalServerError error, status = 500\<rparr>
      | Inr parsed \<Rightarrow>
          \<lparr>data = ProfileUpdated (user_id u) (user_email u)
                    (user_name (updated_user S u name bio (Some (JSON_stringify P v))))
                    (user_bio (updated_user S u name bio (Some (JSON_stringify P v)))) parsed,
            status = 200\<rparr>,
      snd (update_user d userId (Date_now S div 1000) name bio (Some (JSON_stringify P v))))"
proof -
  obtain result d' where r: "update_user d userId (Date_now S div 1000) name bio
      (Some (JSON_stringify P v)) = (result, d')"
    by (cases "update_user d userId (Date_now S div 1000) name bio (Some (JSON_stringify P v))")
  obtain rest where res: "result = updated_user S u name bio (Some (JSON_stringify P v)) # rest"
    using update_user_result(1) [OF assms(1), of S name bio "Some (JSON_stringify P v)"] r by auto
  have p: "user_preferences (updated_user S u name bio (Some (JSON_stringify P v)))
      = JSON_stringify P v"
    by (simp add: updated_user_def)
  have i: "user_id (updated_user S u name bio (Some (JSON_stringify P v))) = user_id u"
    "user_email (updated_user S u name bio (Some (JSON_stringify P v))) = user_email u"
    by (simp_all add: updated_user_def)
  show ?thesis
    using assms(2) r res p i
    by (cases "JSON_parse P (JSON_stringify P v)")
       (simp_all add: put_profile_def catch_500_def formatResponse_def)
qed

lemma get_profile_found:
  assumes "select_user_by_id d userId = Some u" "JSON_parse P (user_preferences u) = Inr v"
  shows "get_profile P d userId =
     (\<lparr>data = Profile (user_id u) (user_email u) (user_name u) (user_bio u) v
                (user_createdAt u) (user_updatedAt u),
        status = 200\<rparr>, d)"
  using assms by (simp add: get_profile_def catch_500_def formatResponse_def)

text \<open>
  C10. \<^verbatim>\<open>PUT /profile\<close> answers the 400 \<^verbatim>\<open>preferences must be an object\<close>
  exactly when preferences are given and their \<^verbatim>\<open>typeof\<close> is not
  \<^verbatim>\<open>object\<close>. The \<^verbatim>\<open>typeof\<close> of null and of an array is
  \<^verbatim>\<open>object\<close>: for an existing user such a value is not refused, and the user's
  row then holds the text that \<^verbatim>\<open>JSON.stringify\<close> gives for it. The answer,
  and a profile read that follows, carry as preferences what \<^verbatim>\<open>JSON.parse\<close>
  reads from that text, with status 200: the value itself wherever
  \<^verbatim>\<open>JSON.parse\<close> reads back what \<^verbatim>\<open>JSON.stringify\<close> wrote.
\<close>

theorem put_profile_typeof:
  "(fst (put_profile P S d userId name bio preferences) =
      \<lparr>data = ErrorBody ''Bad Request'' ''preferences must be an object'', status = 400\<rparr> \<longleftrightarrow>
      (\<exists>p. preferences = Some p \<and> typeof p \<noteq> ''object'')) \<and>
   typeof JNull = ''object'' \<and> typeof (JArr xs) = ''object'' \<and>
   (select_user_by_id d userId = Some u \<and> (v = JNull \<or> v = JArr xs) \<longrightarrow>
      (\<exists>d' u'. snd (put_profile P S d userId name bio (Some v)) = d' \<and>
         status (fst (put_profile P S d userId name bio (Some v))) \<noteq> 400 \<and>
         select_user_by_id d' userId = Some u' \<and>
         user_preferences u' = JSON_stringify P v \<and>
         (\<forall>w. JSON_parse P (JSON_stringify P v) = Inr w \<longrightarrow>
            fst (put_profile P S d userId name bio (Some v)) =
              \<lparr>data = ProfileUpdated (user_id u) (user_email u) (user_name u') (user_bio u') w,
                status = 200\<rparr> \<and>
            get_profile P d' userId =
              (\<lparr>data = Profile (user_id u) (user_email u) (user_name u') (user_bio u') w
                         (user_createdAt u) (Date_now S div 1000),
                 status = 200\<rparr>, d'))))"
proof -
  have a: "fst (put_profile P S d userId name bio preferences) =
      \<lparr>data = ErrorBody ''Bad Request'' ''preferences must be an object'', status = 400\<rparr> \<longleftrightarrow>
      (\<exists>p. preferences = Some p \<and> typeof p \<noteq> ''object'')"
  proof (cases "\<exists>p. preferences = Some p \<and> typeof p \<noteq> ''object''")
    case True
    then show ?thesis using put_profile_rejected [of _ P S d userId name bio] by auto
  next
    case False
    then have "preferences = None \<or> typeof (the preferences) = ''object''"
      by (cases preferences) auto
    from put_profile_not_rejected [OF this, of P S d userId name bio]
    have "fst (put_profile P S d userId name bio preferences) \<noteq>
        \<lparr>data = ErrorBody ''Bad Request'' ''preferences must be an object'', status = 400\<rparr>"
      by auto
    then show ?thesis using False by simp
  qed
  have t: "typeof JNull = ''object''" "typeof (JArr xs) = ''object''"
    by (simp_all add: typeof_def)
  have c: "select_user_by_id d userId = Some u \<and> (v = JNull \<or> v = JArr xs) \<longrightarrow>
      (\<exists>d' u'. snd (put_profile P S d userId name bio (Some v)) = d' \<and>
         status (fst (put_profile P S d userId name bio (Some v))) \<noteq> 400 \<and>
         select_user_by_id d' userId = Some u' \<and>
         user_preferences u' = JSON_stringify P v \<and>
         (\<forall>w. JSON_parse P (JSON_stringify P v) = Inr w \<longrightarrow>
            fst (put_profile P S d userId name bio (Some v)) =
              \<lparr>data = ProfileUpdated (user_id u) (user_email u) (user_name u') (user_bio u') w,
                status = 200\<rparr> \<and>
            get_profile P d' userId =
              (\<lparr>data = Profile (user_id u) (user_email u) (user_name u') (user_bio u') w
                         (user_createdAt u) (Date_now S div 1000),
                 status = 200\<rparr>, d')))"
  proof
    assume h: "select_user_by_id d userId = Some u \<and> (v = JNull \<or> v = JArr xs)"
    then have u: "select_user_by_id d userId = Some u" and o: "typeof v = ''object''"
      using t by auto
    let ?u = "updated_user S u name bio (Some (JSON_stringify P v))"
    let ?d = "snd (update_user d userId (Date_now S div 1000) name bio (Some (JSON_stringify P v)))"
    note p = put_profile_accepted [OF u o, of P S name bio]
    have s: "snd (put_profile P S d userId name bio (Some v)) = ?d"
      by (simp add: p)
    have n: "status (fst (put_profile P S d userId name bio (Some v))) \<noteq> 400"
      using put_profile_not_rejected [of "Some v" P S d userId name bio] o by simp
    have f: "select_user_by_id ?d userId = Some ?u"
      by (rule update_user_result(2) [OF u])
    have q: "user_preferences ?u = JSON_stringify P v"
      by (simp add: updated_user_def)
    have r: "fst (put_profile P S d userId name bio (Some v)) =
              \<lparr>data = ProfileUpdated (user_id u) (user_email u) (user_name ?u) (user_bio ?u) w,
                status = 200\<rparr> \<and>
            get_profile P ?d userId =
              (\<lparr>data = Profile (user_id u) (user_email u) (user_name ?u) (user_bio ?u) w
                         (user_createdAt u) (Date_now S div 1000),
                 status = 200\<rparr>, ?d)"
      if w: "JSON_parse P (JSON_stringify P v) = Inr w" for w
    proof -
      have "JSON_parse P (user_preferences ?u) = Inr w" using q w by simp
      from get_profile_found [OF f this]
      have "get_profile P ?d userId =
              (\<lparr>data = Profile (user_id u) (user_email u) (user_name ?u) (user_bio ?u) w
                         (user_createdAt u) (Date_now S div 1000),
                 status = 200\<rparr>, ?d)"
        by (simp add: updated_user_def)
      then show ?thesis using w by (simp add: p)
    qed
    show "\<exists>d' u'. snd (put_profile P S d userId name bio (Some v)) = d' \<and>
         status (fst (put_profile P S d userId name bio (Some v))) \<noteq> 400 \<and>
         select_user_by_id d' userId = Some u' \<and>
         user_preferences u' = JSON_stringify P v \<and>
         (\<forall>w. JSON_parse P (JSON_stringify P v) = Inr w \<longrightarrow>
            fst (put_profile P S d userId name bio (Some v)) =
              \<lparr>data = ProfileUpdated (user_id u) (user_email u) (user_name u') (user_bio u') w,
                status = 200\<rparr> \<and>
            get_profile P d' userId =
              (\<lparr>data = Profile (user_id u) (user_email u) (user_name u') (user_bio u') w
                         (user_createdAt u) (Date_now S div 1000),
                 status = 200\<rparr>, d'))"
      using s n f q r by blast
  qed
  show ?thesis
    by (rule conjI [OF a conjI [OF t(1) conjI [OF t(2) c]]])
qed

theorem put_profile_typeof_witness:
  "select_user_by_id sample_db ''u1'' = Some alice \<and>
   JSON_parse sample_packages (JSON_stringify sample_packages JNull) = Inr JNull \<and>
   JSON_parse sample_packages (JSON_stringify sample_packages (JArr [JNum 1, JNum 2]))
     = Inr (JArr [JNum 1, JNum 2]) \<and>
   fst (put_profile sample_packages sample_sys sample_db ''u1'' None None (Some (JStr ''dark'')))
     = \<lparr>data = ErrorBody ''Bad Request'' ''preferences must be an object'', status = 400\<rparr> \<and>
   fst (put_profile sample_packages sample_sys sample_db ''u1'' None None (Some JNull))
     = \<lparr>data = ProfileUpdated ''u1'' ''a@b.com'' ''A'' [] JNull, status = 200\<rparr> \<and>
   map user_preferences
       (users (snd (put_profile sample_packages sample_sys sample_db ''u1'' None None (Some JNull))))
     = [''null'', ''{}''] \<and>
   fst (get_profile sample_packages
          (snd (put_profile sample_packages sample_sys sample_db ''u1'' None None (Some JNull)))
          ''u1'')
     = \<lparr>data = Profile ''u1'' ''a@b.com'' ''A'' [] JNull 1690000000 1700000000, status = 200\<rparr> \<and>
   map user_preferences
       (users (snd (put_profile sample_packages sample_sys sample_db ''u1'' None None
                      (Some (JArr [JNum 1, JNum 2])))))
     = [''[1,2]'', ''{}''] \<and>
   fst (get_profile sample_packages
          (snd (put_profile sample_packages sample_sys sample_db ''u1'' None None
                  (Some (JArr [JNum 1, JNum 2]))))
          ''u1'')
     = \<lparr>data = Profile ''u1'' ''a@b.com'' ''A'' [] (JArr [JNum 1, JNum 2]) 1690000000 1700000000,
        status = 200\<rparr>"
proof -
  have u: "select_user_by_id sample_db ''u1'' = Some alice"
    by (simp add: select_user_by_id_def sample_db_def alice_def bob_def)
  have rt: "JSON_parse sample_packages (JSON_stringify sample_packages JNull) = Inr JNull"
    "JSON_parse sample_packages (JSON_stringify sample_packages (JArr [JNum 1, JNum 2]))
       = Inr (JArr [JNum 1, JNum 2])"
    by (simp_all add: sample_packages_def)
  have st: "JSON_stringify sample_packages JNull = ''null''"
    "JSON_stringify sample_packages (JArr [JNum 1, JNum 2]) = ''[1,2]''"
    by (simp_all add: sample_packages_def)
  have r: "fst (put_profile sample_packages sample_sys sample_db ''u1'' None None (Some (JStr ''dark'')))
      = \<lparr>data = ErrorBody ''Bad Request'' ''preferences must be an object'', status = 400\<rparr>"
    using put_profile_typeof [of sample_packages sample_sys sample_db "''u1''" None None
        "Some (JStr ''dark'')"]
    by (simp add: typeof_def)
  have upd: "snd (update_user sample_db ''u1'' (Date_now sample_sys div 1000) None None (Some p))
      = sample_db\<lparr>users := [updated_user sample_sys alice None None (Some p), bob]\<rparr>" for p
    by (simp add: update_user_eq sample_db_def alice_def bob_def)
  have o: "typeof JNull = ''object''" "typeof (JArr [JNum 1, JNum 2]) = ''object''"
    by (simp_all add: typeof_def)
  have d: "snd (put_profile sample_packages sample_sys sample_db ''u1'' None None (Some v))
      = sample_db\<lparr>users := [updated_user sample_sys alice None None
           (Some (JSON_stringify sample_packages v)), bob]\<rparr>"
    if "typeof v = ''object''" for v
    using put_profile_accepted [OF u that, of sample_packages sample_sys None None]
    by (simp add: upd)
  have pr: "user_preferences (updated_user sample_sys alice None None (Some p)) = p"
    "user_name (updated_user sample_sys alice None None (Some p)) = ''A''"
    "user_bio (updated_user sample_sys alice None None (Some p)) = []" for p
    by (simp_all add: updated_user_def alice_def)
  have b: "user_preferences bob = ''{}''" by (simp add: bob_def)
  have al: "user_id alice = ''u1''" "user_email alice = ''a@b.com''"
    "user_createdAt alice = 1690000000" "Date_now sample_sys div 1000 = 1700000000"
    by (simp_all add: alice_def sample_sys_def)
  have f: "select_user_by_id
      (sample_db\<lparr>users := [updated_user sample_sys alice None None (Some p), bob]\<rparr>) ''u1''
      = Some (updated_user sample_sys alice None None (Some p))" for p
    using update_user_result(2) [OF u, of sample_sys None None "Some p"] by (simp add: upd)
  have n: "fst (put_profile sample_packages sample_sys sample_db ''u1'' None None (Some JNull))
        = \<lparr>data = ProfileUpdated ''u1'' ''a@b.com'' ''A'' [] JNull, status = 200\<rparr> \<and>
      get_profile sample_packages
          (snd (put_profile sample_packages sample_sys sample_db ''u1'' None None (Some JNull)))
          ''u1''
        = (\<lparr>data = Profile ''u1'' ''a@b.com'' ''A'' [] JNull 1690000000 1700000000,
             status = 200\<rparr>,
           snd (put_profile sample_packages sample_sys sample_db ''u1'' None None (Some JNull)))"
    using put_profile_typeof [of sample_packages sample_sys sample_db "''u1''" None None
        "Some JNull" "[]" alice JNull] u rt(1) d [OF o(1)] f [of "''null''"] st(1) pr al
    by simp
  have m: "get_profile sample_packages
          (snd (put_profile sample_packages sample_sys sample_db ''u1'' None None
                  (Some (JArr [JNum 1, JNum 2]))))
          ''u1''
        = (\<lparr>data = Profile ''u1'' ''a@b.com'' ''A'' [] (JArr [JNum 1, JNum 2]) 1690000000
                      1700000000,
             status = 200\<rparr>,
           snd (put_profile sample_packages sample_sys sample_db ''u1'' None None
                  (Some (JArr [JNum 1, JNum 2]))))"
    using put_profile_typeof [of sample_packages sample_sys sample_db "''u1''" None None
        "Some (JArr [JNum 1, JNum 2])" "[JNum 1, JNum 2]" alice "JArr [JNum 1, JNum 2]"]
      u rt(2) d [OF o(2)] f [of "''[1,2]''"] st(2) pr al
    by simp
  show ?thesis
    using u rt r n m d [OF o(1)] d [OF o(2)] st pr b by simp
qed

end
